theory Spec2Isabelle
  imports Main "HOL-Library.Monad_Syntax" "HOL-Library.Multiset"
begin

section \<open>Data model of report.go\<close>

text \<open>
  The structs of the package, one record each. Go strings are byte strings
  (\<open>string\<close>). Go \<open>int\<close> fields are \<open>int\<close>: the counts and numbers are only stored,
  compared and printed; the one \<open>int\<close> the package computes with is \<open>Duration\<close>,
  which \<open>Run\<close> negates, and that negation is written with its wrap-around
  (\<open>neg_int\<close>). Anonymous nested structs are flattened, the path becoming a prefix
  of the field name.
\<close>

record PageInfoStruct =
  HasNextPage :: bool
  StartCursor :: string
  EndCursor :: string
  HasPreviousPage :: bool

record RateLimitStruct =
  Limit :: int
  Cost :: int
  Remaining :: int
  ResetAt :: string

record UserStruct =
  Login :: string

record PRStruct =
  Number :: int
  Title :: string
  Repository :: string
  CreatedAt :: string
  MergedAt :: string
  State :: string
  Participants_Nodes :: "UserStruct list"
  Participants_PageInfo :: PageInfoStruct
  Participants_TotalCount :: int
  Timeline_TotalCount :: int

record repositoryNode =
  Name :: string
  Owner :: UserStruct

record repositoriesResponseStruct =
  Repositories_Nodes :: "repositoryNode list"
  Repositories_PageInfo :: PageInfoStruct
  Repositories_TotalCount :: int
  Repositories_RateLimit :: RateLimitStruct

record commitNode =
  Oid :: string
  CommittedDate :: string
  Author :: UserStruct
  Message :: string

record refNode =
  Ref_Name :: string
  History_Nodes :: "commitNode list"
  History_PageInfo :: PageInfoStruct
  History_TotalCount :: int

record reportResponseStruct =
  Repository_Name :: string
  MergedPR_Nodes :: "PRStruct list"
  MergedPR_PageInfo :: PageInfoStruct
  MergedPR_TotalCount :: int
  OpenPR_Nodes :: "PRStruct list"
  OpenPR_PageInfo :: PageInfoStruct
  OpenPR_TotalCount :: int
  Refs_Nodes :: "refNode list"
  Refs_PageInfo :: PageInfoStruct
  Refs_TotalCount :: int
  Report_RateLimit :: RateLimitStruct

section \<open>Time: instants, the zero Time, time.Parse with the layout ISO_FORM\<close>

text \<open>
  A \<open>time.Time\<close> is modelled by the instant it denotes, in nanoseconds counted from
  January 1, year 1, 00:00:00 UTC, which is Go's zero \<open>Time\<close>. \<open>After\<close> compares
  instants.
\<close>

type_synonym Time = int

definition zeroTime :: Time where
  "zeroTime = 0"

definition After :: "Time \<Rightarrow> Time \<Rightarrow> bool" where
  "After t u = (u < t)"

definition nsPerDay :: int where
  "nsPerDay = 86400 * 1000000000"

text \<open>
  The clock and the calendar of the process belong to the environment: \<open>Now\<close> is the
  value of \<open>time.Now()\<close>, and \<open>AddDate t days\<close> is \<open>t.AddDate(0, 0, days)\<close>, whatever
  the local zone, its daylight-saving rules and the range of the library make of it.
\<close>

record clock =
  Now :: Time
  AddDate :: "Time \<Rightarrow> int \<Rightarrow> Time"

text \<open>Unary minus on a Go \<open>int\<close> of 64 bits: the least value is its own negation.\<close>

definition neg_int :: "int \<Rightarrow> int" where
  "neg_int d = (- d + 2 ^ 63) mod 2 ^ 64 - 2 ^ 63"

definition isLeap :: "int \<Rightarrow> bool" where
  "isLeap y = (y mod 4 = 0 \<and> (y mod 100 \<noteq> 0 \<or> y mod 400 = 0))"

definition daysIn :: "int \<Rightarrow> int \<Rightarrow> int" where
  "daysIn m y =
     (if m = 2 then (if isLeap y then 29 else 28)
      else if m = 4 \<or> m = 6 \<or> m = 9 \<or> m = 11 then 30 else 31)"

definition daysBefore :: "int \<Rightarrow> int \<Rightarrow> int" where
  \<comment> \<open>days of the year \<open>y\<close> that precede the first day of month \<open>m\<close>\<close>
  "daysBefore m y =
     (if m = 1 then 0 else if m = 2 then 31
      else (if isLeap y then 1 else 0) +
        (if m = 3 then 59 else if m = 4 then 90 else if m = 5 then 120
         else if m = 6 then 151 else if m = 7 then 181 else if m = 8 then 212
         else if m = 9 then 243 else if m = 10 then 273 else if m = 11 then 304
         else 334))"

definition daysSinceEpoch :: "int \<Rightarrow> int" where
  \<comment> \<open>days from January 1 of year 1 to January 1 of year \<open>y\<close> (negative for year 0)\<close>
  "daysSinceEpoch y =
     365 * (y - 1) + (y - 1) div 4 - (y - 1) div 100 + (y - 1) div 400"

definition Date :: "int \<Rightarrow> int \<Rightarrow> int \<Rightarrow> int \<Rightarrow> int \<Rightarrow> int \<Rightarrow> int \<Rightarrow> Time" where
  \<comment> \<open>\<open>time.Date(year, month, day, hour, min, sec, nsec, time.UTC)\<close> on a valid date\<close>
  "Date year month day hour mn sec nsec =
     ((daysSinceEpoch year + daysBefore month year + (day - 1)) * 86400
        + hour * 3600 + mn * 60 + sec) * 1000000000 + nsec"

definition isDigit :: "char \<Rightarrow> bool" where
  "isDigit c = (48 \<le> (of_char c :: nat) \<and> (of_char c :: nat) \<le> 57)"

definition digitVal :: "char \<Rightarrow> int" where
  "digitVal c = int (of_char c) - 48"

text \<open>
  \<open>getnum(s, fixed)\<close> of package time: one or two leading digits, two required when
  \<open>fixed\<close>.
\<close>

fun getnum :: "string \<Rightarrow> bool \<Rightarrow> (int \<times> string) option" where
  "getnum [] fixed = None"
| "getnum [c] fixed =
     (if \<not> isDigit c \<or> fixed then None else Some (digitVal c, []))"
| "getnum (c # d # r) fixed =
     (if \<not> isDigit c then None
      else if \<not> isDigit d then (if fixed then None else Some (digitVal c, d # r))
      else Some (digitVal c * 10 + digitVal d, r))"

fun skip :: "string \<Rightarrow> char \<Rightarrow> string option" where
  \<comment> \<open>a literal character of the layout must be next in the value\<close>
  "skip [] p = None"
| "skip (c # r) p = (if c = p then Some r else None)"

fun getyear :: "string \<Rightarrow> (int \<times> string) option" where
  \<comment> \<open>the layout element \<open>2006\<close>: exactly four digits\<close>
  "getyear (a # b # c # d # r) =
     (if isDigit a \<and> isDigit b \<and> isDigit c \<and> isDigit d
      then Some (((digitVal a * 10 + digitVal b) * 10 + digitVal c) * 10 + digitVal d, r)
      else None)"
| "getyear _ = None"

fun digitsValue :: "string \<Rightarrow> int" where
  "digitsValue [] = 0"
| "digitsValue (c # r) = digitVal c * 10 ^ length r + digitsValue r"

definition getfrac :: "string \<Rightarrow> int \<times> string" where
  \<comment> \<open>A fractional second in the value that the layout does not mention is read all
      the same: a period or comma and a digit start it, all the digits that follow are
      consumed, the first nine count.\<close>
  "getfrac v =
     (case v of
        p # d # r \<Rightarrow>
          if (p = CHR ''.'' \<or> p = CHR '','') \<and> isDigit d
          then (let ds = takeWhile isDigit (d # r); ds9 = take 9 ds
                in (digitsValue ds9 * 10 ^ (9 - length ds9), dropWhile isDigit (d # r)))
          else (0, v)
      | _ \<Rightarrow> (0, v))"

text \<open>
  \<open>time.Parse(ISO_FORM, value)\<close> for \<open>ISO_FORM = "2006-01-02T15:04:05Z"\<close>, where the
  final \<open>Z\<close> is a literal of the layout. \<open>None\<close> is the parse error. The elements are
  read in the layout's order with the library's range checks; the day of the month is
  validated at the end.
\<close>

definition parseISO :: "string \<Rightarrow> Time option" where
  "parseISO value =
     do {
       (year, v1) \<leftarrow> getyear value;
       v2 \<leftarrow> skip v1 (CHR ''-'');
       (month, v3) \<leftarrow> getnum v2 True;
       v4 \<leftarrow> (if month \<le> 0 \<or> 12 < month then None else skip v3 (CHR ''-''));
       (day, v5) \<leftarrow> getnum v4 True;
       v6 \<leftarrow> skip v5 (CHR ''T'');
       (hour, v7) \<leftarrow> getnum v6 False;
       v8 \<leftarrow> (if 24 \<le> hour then None else skip v7 (CHR '':''));
       (mn, v9) \<leftarrow> getnum v8 True;
       v10 \<leftarrow> (if 60 \<le> mn then None else skip v9 (CHR '':''));
       (sec, v11) \<leftarrow> getnum v10 True;
       (nsec, v12) \<leftarrow> (if 60 \<le> sec then None else Some (getfrac v11));
       v13 \<leftarrow> skip v12 (CHR ''Z'');
       if v13 \<noteq> [] \<or> day < 1 \<or> daysIn month year < day then None
       else Some (Date year month day hour mn sec nsec)
     }"

text \<open>
  The package always calls \<open>t, _ := time.Parse(ISO_FORM, s)\<close>: the error is dropped and
  \<open>t\<close> is the zero \<open>Time\<close> when parsing failed.
\<close>

definition time_Parse :: "string \<Rightarrow> Time" where
  "time_Parse s = (case parseISO s of None \<Rightarrow> zeroTime | Some t \<Rightarrow> t)"

section \<open>The remote query client, the logging sink, the report object\<close>

text \<open>
  A \<open>graphql.Request\<close>: the query text (one constructor per query literal of the
  package) and the variables bound with \<open>Var\<close>. The two date variables of the report
  query hold \<open>since.Format(ISO_FORM)\<close>; they are kept as the instant they print.
\<close>

datatype query =
    RepositoriesFirst   \<comment> \<open>\<open>repositories(first:$size, affiliations:OWNER)\<close>\<close>
  | RepositoriesLast    \<comment> \<open>\<open>repositories(last:$size, affiliations:OWNER)\<close>\<close>
  | RepositoriesAfter   \<comment> \<open>\<open>repositories(first:$size, after:$cursor)\<close>\<close>
  | RepositoryReport    \<comment> \<open>the combined mergedPR / openPR / refs query\<close>

datatype var = VString string | VInt int | VTime Time

record Request =
  query_of :: query
  vars :: "string \<rightharpoonup> var"

definition NewRequest :: "query \<Rightarrow> Request" where
  "NewRequest q = \<lparr>query_of = q, vars = Map.empty\<rparr>"

definition Var :: "Request \<Rightarrow> string \<Rightarrow> var \<Rightarrow> Request" where
  "Var req key v = req\<lparr>vars := (vars req)(key \<mapsto> v)\<rparr>"

text \<open>
  \<open>client.Run(ctx, req, &respData)\<close> is the external collaborator. What it answers is
  given by the environment: for the call number \<open>n\<close> on this client (counted from 0)
  and the request, the value left in \<open>respData\<close> and the returned error (\<open>None\<close> is
  \<open>nil\<close>, an error is its message). The static type of \<open>respData\<close> selects the
  decoder, hence one field per response type.
\<close>

record graphql_Client =
  run_repositories :: "nat \<Rightarrow> Request \<Rightarrow> repositoriesResponseStruct \<times> string option"
  run_report :: "nat \<Rightarrow> Request \<Rightarrow> reportResponseStruct \<times> string option"

text \<open>
  What a run changes outside the report object: the number of calls made on the client
  and the text handed to the logging sink. The sink \<open>Log func(s string)\<close> is modelled
  by its effect on the logged text; \<open>None\<close> is the \<open>nil\<close> func.
\<close>

record world =
  calls :: nat
  logged :: "string list"

record Result_struct =
  MergedPRs :: "PRStruct list"
  OpenPRsWithActivity :: "PRStruct list"
  OpenPRsWithoutActivity :: "PRStruct list"

record ActivityReport =
  Organization :: string
  Duration :: int
  ReportDate :: Time
  Result :: Result_struct
  Log :: "(string \<Rightarrow> string list \<Rightarrow> string list) option"
  gitHubToken :: string

text \<open>A call either returns or panics (calling a \<open>nil\<close> func is a run-time panic).\<close>

datatype 'a exec = Panic | Done 'a

definition NewActivityReport :: "string \<Rightarrow> string \<Rightarrow> int \<Rightarrow> ActivityReport" where
  "NewActivityReport org token duration =
     \<lparr>Organization = org, Duration = duration, ReportDate = zeroTime,
      Result = \<lparr>MergedPRs = [], OpenPRsWithActivity = [], OpenPRsWithoutActivity = []\<rparr>,
      Log = None, gitHubToken = token\<rparr>"

subsection \<open>Formatting\<close>

fun show_nat :: "nat \<Rightarrow> string" where
  "show_nat n =
     (if n < 10 then [char_of (48 + n)] else show_nat (n div 10) @ [char_of (48 + n mod 10)])"

declare show_nat.simps [simp del]

definition show_int :: "int \<Rightarrow> string" where
  \<comment> \<open>\<open>%v\<close> and \<open>%d\<close> of an \<open>int\<close>\<close>
  "show_int i = (if i < 0 then CHR ''-'' # show_nat (nat (- i)) else show_nat (nat i))"

definition newline :: string where
  "newline = [CHR 0x0A]"

subsection \<open>logf\<close>

definition logf :: "ActivityReport \<Rightarrow> string \<Rightarrow> world \<Rightarrow> world exec" where
  \<comment> \<open>\<open>gr.Log(fmt.Sprintf(format, args...))\<close>, the formatted text being \<open>msg\<close>\<close>
  "logf gr msg w =
     (case Log gr of
        None \<Rightarrow> Panic
      | Some f \<Rightarrow> Done (w\<lparr>logged := f msg (logged w)\<rparr>))"

definition creditsRemaining :: "RateLimitStruct \<Rightarrow> string" where
  "creditsRemaining rl = ''Credits remaining '' @ show_int (Remaining rl) @ newline"

subsection \<open>The client calls\<close>

definition client_Run_repositories ::
  "graphql_Client \<Rightarrow> Request \<Rightarrow> world \<Rightarrow>
     (repositoriesResponseStruct \<times> string option) \<times> world" where
  "client_Run_repositories client req w =
     (run_repositories client (calls w) req, w\<lparr>calls := Suc (calls w)\<rparr>)"

definition client_Run_report ::
  "graphql_Client \<Rightarrow> Request \<Rightarrow> world \<Rightarrow>
     (reportResponseStruct \<times> string option) \<times> world" where
  "client_Run_report client req w =
     (run_report client (calls w) req, w\<lparr>calls := Suc (calls w)\<rparr>)"

definition repositoryNames :: "repositoriesResponseStruct \<Rightarrow> string list" where
  \<comment> \<open>\<open>for _, repo := range Nodes { repositories = append(repositories, repo.Name) }\<close>\<close>
  "repositoryNames respData =
     foldl (\<lambda>repositories repo. repositories @ [Name repo]) [] (Repositories_Nodes respData)"

subsection \<open>listSubsetRepositories\<close>

definition listSubsetRepositories_request :: "string \<Rightarrow> string \<Rightarrow> Request" where
  "listSubsetRepositories_request organization cursor =
     (let req = (if cursor = [] then NewRequest RepositoriesLast
                 else Var (NewRequest RepositoriesAfter) ''cursor'' (VString cursor));
          req = Var req ''organization'' (VString organization)
      in Var req ''size'' (VInt 10))"

definition listSubsetRepositories ::
  "ActivityReport \<Rightarrow> graphql_Client \<Rightarrow> string \<Rightarrow> string \<Rightarrow> world \<Rightarrow>
     (string + string list) exec \<times> world" where
  \<comment> \<open>\<open>Inl err\<close> is \<open>return nil, err\<close>, \<open>Inr repositories\<close> is \<open>return repositories, nil\<close>\<close>
  "listSubsetRepositories gr client organization cursor w =
     (case client_Run_repositories client
             (listSubsetRepositories_request organization cursor) w of
        ((respData, Some err), w1) \<Rightarrow> (Done (Inl err), w1)
      | ((respData, None), w1) \<Rightarrow>
          (let repositories = repositoryNames respData
           in case logf gr (creditsRemaining (Repositories_RateLimit respData)) w1 of
                Panic \<Rightarrow> (Panic, w1)
              | Done w2 \<Rightarrow> (Done (Inr repositories), w2)))"

subsection \<open>listRepositories\<close>

definition listRepositories_request :: "string \<Rightarrow> string \<Rightarrow> Request" where
  "listRepositories_request organization cursor =
     (let req = (if cursor = [] then NewRequest RepositoriesFirst
                 else Var (NewRequest RepositoriesAfter) ''cursor'' (VString cursor));
          req = Var req ''organization'' (VString organization)
      in Var req ''size'' (VInt 50))"

definition listRepositories_return ::
  "ActivityReport \<Rightarrow> repositoriesResponseStruct \<Rightarrow> string list \<Rightarrow> world \<Rightarrow>
     (string + string list) exec \<times> world" where
  \<comment> \<open>the last two statements: log the credits of this page, return the names\<close>
  "listRepositories_return gr respData repositories w =
     (case logf gr (creditsRemaining (Repositories_RateLimit respData)) w of
        Panic \<Rightarrow> (Panic, w)
      | Done w' \<Rightarrow> (Done (Inr repositories), w'))"

text \<open>
  The recursion follows \<open>hasNextPage\<close> with no bound on the number of pages, so the
  function is partial: \<open>None\<close> is a traversal that never returns.
\<close>

partial_function (option) listRepositories ::
  "ActivityReport \<Rightarrow> graphql_Client \<Rightarrow> string \<Rightarrow> string \<Rightarrow> world \<Rightarrow>
     ((string + string list) exec \<times> world) option" where
  "listRepositories gr client organization cursor w =
     (case client_Run_repositories client (listRepositories_request organization cursor) w of
        ((respData, Some err), w1) \<Rightarrow> Some (Done (Inl err), w1)
      | ((respData, None), w1) \<Rightarrow>
          (let repositories = repositoryNames respData
           in if HasNextPage (Repositories_PageInfo respData)
              then Option.bind
                     (listRepositories gr client organization
                        (EndCursor (Repositories_PageInfo respData)) w1)
                     (\<lambda>r. case r of
                          (Panic, w2) \<Rightarrow> Some (Panic, w2)
                        | (Done (Inl err), w2) \<Rightarrow> Some (Done (Inl err), w2)
                        | (Done (Inr additionalRepos), w2) \<Rightarrow>
                            Some (listRepositories_return gr respData
                                    (repositories @ additionalRepos) w2))
              else Some (listRepositories_return gr respData repositories w1)))"

subsection \<open>reportRepository\<close>

definition reportRepository_request :: "string \<Rightarrow> string \<Rightarrow> Time \<Rightarrow> Request" where
  "reportRepository_request organization repository since =
     (let req = NewRequest RepositoryReport;
          req = Var req ''organization'' (VString organization);
          req = Var req ''repo'' (VString repository);
          req = Var req ''date'' (VTime since);
          req = Var req ''date2'' (VTime since)
      in Var req ''size'' (VInt 50))"

definition reportRepository ::
  "ActivityReport \<Rightarrow> graphql_Client \<Rightarrow> string \<Rightarrow> string \<Rightarrow> Time \<Rightarrow> world \<Rightarrow>
     (reportResponseStruct \<times> string option) exec \<times> world" where
  "reportRepository gr client organization repository since w =
     (case client_Run_report client
             (reportRepository_request organization repository since) w of
        ((respData, Some err), w1) \<Rightarrow> (Done (respData, Some err), w1)
      | ((respData, None), w1) \<Rightarrow>
          (case logf gr (creditsRemaining (Report_RateLimit respData)) w1 of
             Panic \<Rightarrow> (Panic, w1)
           | Done w2 \<Rightarrow> (Done (respData, None), w2)))"

section \<open>Classification and Run\<close>

definition extractMergedPR :: "Time \<Rightarrow> string \<Rightarrow> ActivityReport \<Rightarrow> PRStruct \<Rightarrow> ActivityReport" where
  \<comment> \<open>the body of the loop over \<open>report.Repository.MergedPR.Nodes\<close>\<close>
  "extractMergedPR since repoName gr pullrequest =
     (let t = time_Parse (MergedAt pullrequest)
      in if After t since
         then (let pullrequest = pullrequest\<lparr>Repository := repoName\<rparr>
               in gr\<lparr>Result := (Result gr)
                       \<lparr>MergedPRs := MergedPRs (Result gr) @ [pullrequest]\<rparr>\<rparr>)
         else gr)"

definition extractOpenPR :: "string \<Rightarrow> ActivityReport \<Rightarrow> PRStruct \<Rightarrow> ActivityReport" where
  \<comment> \<open>the body of the loop over \<open>report.Repository.OpenPR.Nodes\<close>\<close>
  "extractOpenPR repoName gr pullrequest =
     (let pullrequest = pullrequest\<lparr>Repository := repoName\<rparr>
      in if Timeline_TotalCount pullrequest > 0
         then gr\<lparr>Result := (Result gr)
                 \<lparr>OpenPRsWithActivity := OpenPRsWithActivity (Result gr) @ [pullrequest]\<rparr>\<rparr>
         else gr\<lparr>Result := (Result gr)
                 \<lparr>OpenPRsWithoutActivity :=
                    OpenPRsWithoutActivity (Result gr) @ [pullrequest]\<rparr>\<rparr>)"

definition buildReport ::
  "Time \<Rightarrow> string \<Rightarrow> reportResponseStruct \<Rightarrow> ActivityReport \<Rightarrow> ActivityReport" where
  \<comment> \<open>the \<open>// Build report\<close> block: the merged loop, then the open loop\<close>
  "buildReport since repoName report gr =
     foldl (extractOpenPR repoName)
       (foldl (extractMergedPR since repoName) gr (MergedPR_Nodes report))
       (OpenPR_Nodes report)"

definition reportError :: "string \<Rightarrow> string \<Rightarrow> string" where
  "reportError repoName err2 =
     ''An error occured during report for '' @ repoName @ '': '' @ err2 @ newline"

definition listingError :: "string \<Rightarrow> string" where
  "listingError err = ''An error occured during repositories listing '' @ err @ newline"

text \<open>
  The loop \<open>for _, repoName := range repositories\<close>. The report object is mutated in
  place, so it is returned with every outcome, as it stands when \<open>Run\<close> leaves.
\<close>

fun Run_repositories ::
  "graphql_Client \<Rightarrow> Time \<Rightarrow> string list \<Rightarrow> ActivityReport \<Rightarrow> world \<Rightarrow>
     string option exec \<times> ActivityReport \<times> world" where
  "Run_repositories client since [] gr w = (Done None, gr, w)"
| "Run_repositories client since (repoName # rest) gr w =
     (case reportRepository gr client (Organization gr) repoName since w of
        (Panic, w1) \<Rightarrow> (Panic, gr, w1)
      | (Done (report, Some err2), w1) \<Rightarrow> (Done (Some (reportError repoName err2)), gr, w1)
      | (Done (report, None), w1) \<Rightarrow>
          Run_repositories client since rest (buildReport since repoName report gr) w1)"

definition Run_summary ::
  "ActivityReport \<Rightarrow> world \<Rightarrow> string option exec \<times> ActivityReport \<times> world" where
  \<comment> \<open>the three closing \<open>logf\<close> calls and \<open>return nil\<close>\<close>
  "Run_summary gr w =
     (case logf gr (''Nb merged pr:'' @
                    show_int (int (length (MergedPRs (Result gr)))) @ newline) w of
        Panic \<Rightarrow> (Panic, gr, w)
      | Done w1 \<Rightarrow>
     (case logf gr (''Nb open pr with activity:'' @
                    show_int (int (length (OpenPRsWithActivity (Result gr)))) @ newline) w1 of
        Panic \<Rightarrow> (Panic, gr, w1)
      | Done w2 \<Rightarrow>
     (case logf gr (''Nb open pr without activity:'' @
                    show_int (int (length (OpenPRsWithoutActivity (Result gr)))) @ newline) w2 of
        Panic \<Rightarrow> (Panic, gr, w2)
      | Done w3 \<Rightarrow> (Done None, gr, w3))))"

text \<open>
  \<open>Run\<close>. The client it builds from the token and the clock come from the
  environment. The result is the returned \<open>error\<close> (\<open>None\<close> is \<open>nil\<close>) or the
  panic, with the report object and the world as the call leaves them.
\<close>

definition Run ::
  "graphql_Client \<Rightarrow> clock \<Rightarrow> ActivityReport \<Rightarrow> world \<Rightarrow>
     string option exec \<times> ActivityReport \<times> world" where
  "Run client clk gr0 w =
     (let now = Now clk;
          since = AddDate clk now (neg_int (Duration gr0));
          gr = gr0\<lparr>ReportDate := now\<rparr>
      in case listSubsetRepositories gr client (Organization gr) [] w of
           (Panic, w1) \<Rightarrow> (Panic, gr, w1)
         | (Done (Inl err), w1) \<Rightarrow> (Done (Some (listingError err)), gr, w1)
         | (Done (Inr repositories), w1) \<Rightarrow>
             (case Run_repositories client since repositories gr w1 of
                (Done None, gr2, w2) \<Rightarrow> Run_summary gr2 w2
              | (Done (Some e), gr2, w2) \<Rightarrow> (Done (Some e), gr2, w2)
              | (Panic, gr2, w2) \<Rightarrow> (Panic, gr2, w2)))"

section \<open>Ordering utilities: ByActivity and ByAge\<close>

text \<open>
  The three methods of \<open>sort.Interface\<close> on each slice type. An index out of range
  panics in Go; the sort routines only pass indices below \<open>Len\<close>.
\<close>

definition ByActivity_Len :: "PRStruct list \<Rightarrow> nat" where
  "ByActivity_Len a = length a"

definition ByActivity_Swap :: "PRStruct list \<Rightarrow> nat \<Rightarrow> nat \<Rightarrow> PRStruct list exec" where
  "ByActivity_Swap a i j =
     (if i < length a \<and> j < length a then Done (a[i := a ! j, j := a ! i]) else Panic)"

definition ByActivity_Less :: "PRStruct list \<Rightarrow> nat \<Rightarrow> nat \<Rightarrow> bool exec" where
  "ByActivity_Less a i j =
     (if i < length a \<and> j < length a
      then Done (Timeline_TotalCount (a ! i) > Timeline_TotalCount (a ! j))
      else Panic)"

definition ByAge_Len :: "PRStruct list \<Rightarrow> nat" where
  "ByAge_Len a = length a"

definition ByAge_Swap :: "PRStruct list \<Rightarrow> nat \<Rightarrow> nat \<Rightarrow> PRStruct list exec" where
  "ByAge_Swap a i j =
     (if i < length a \<and> j < length a then Done (a[i := a ! j, j := a ! i]) else Panic)"

definition ByAge_Less :: "PRStruct list \<Rightarrow> nat \<Rightarrow> nat \<Rightarrow> bool exec" where
  "ByAge_Less a i j =
     (if i < length a \<and> j < length a
      then (let ti = time_Parse (CreatedAt (a ! i));
                tj = time_Parse (CreatedAt (a ! j))
            in Done (After tj ti))
      else Panic)"

text \<open>
  The package defines the orderings and leaves the sorting to package sort. Its
  \<open>insertionSort(data, a, b)\<close>, the routine that \<open>sort.Stable\<close> runs on every block of
  up to 20 elements, drives the interface as follows:
  \<^verbatim>\<open>
  for i := a + 1; i < b; i++ {
      for j := i; j > a && data.Less(j, j-1); j-- {
          data.Swap(j, j-1)
      }
  }
  \<close>
\<close>

fun insertionSort_inner ::
  "('a list \<Rightarrow> nat \<Rightarrow> nat \<Rightarrow> bool exec) \<Rightarrow> ('a list \<Rightarrow> nat \<Rightarrow> nat \<Rightarrow> 'a list exec) \<Rightarrow>
     nat \<Rightarrow> nat \<Rightarrow> 'a list \<Rightarrow> 'a list exec" where
  "insertionSort_inner Less Swap a j data =
     (if j > a
      then (case Less data j (j - 1) of
              Panic \<Rightarrow> Panic
            | Done False \<Rightarrow> Done data
            | Done True \<Rightarrow>
                (case Swap data j (j - 1) of
                   Panic \<Rightarrow> Panic
                 | Done data' \<Rightarrow> insertionSort_inner Less Swap a (j - 1) data'))
      else Done data)"

declare insertionSort_inner.simps [simp del]

function insertionSort_outer ::
  "('a list \<Rightarrow> nat \<Rightarrow> nat \<Rightarrow> bool exec) \<Rightarrow> ('a list \<Rightarrow> nat \<Rightarrow> nat \<Rightarrow> 'a list exec) \<Rightarrow>
     nat \<Rightarrow> nat \<Rightarrow> nat \<Rightarrow> 'a list \<Rightarrow> 'a list exec" where
  "insertionSort_outer Less Swap a i b data =
     (if i < b
      then (case insertionSort_inner Less Swap a i data of
              Panic \<Rightarrow> Panic
            | Done data' \<Rightarrow> insertionSort_outer Less Swap a (Suc i) b data')
      else Done data)"
  by pat_completeness auto
termination
  by (relation "measure (\<lambda>(Less, Swap, a, i, b, data). b - i)") auto

declare insertionSort_outer.simps [simp del]

definition insertionSort ::
  "('a list \<Rightarrow> nat \<Rightarrow> nat \<Rightarrow> bool exec) \<Rightarrow> ('a list \<Rightarrow> nat \<Rightarrow> nat \<Rightarrow> 'a list exec) \<Rightarrow>
     'a list \<Rightarrow> nat \<Rightarrow> nat \<Rightarrow> 'a list exec" where
  "insertionSort Less Swap data a b = insertionSort_outer Less Swap a (Suc a) b data"

section \<open>The remote's answers to a run, and example environments\<close>

text \<open>
  What the client answers to the report requests of a run: the repositories are
  requested in order, one call each, the first as call number \<open>n\<close>.
\<close>

fun reportAnswers ::
  "graphql_Client \<Rightarrow> string \<Rightarrow> Time \<Rightarrow> nat \<Rightarrow> string list \<Rightarrow>
     (string \<times> reportResponseStruct \<times> string option) list" where
  "reportAnswers client org since n [] = []"
| "reportAnswers client org since n (repoName # rest) =
     (repoName, run_report client n (reportRepository_request org repoName since))
       # reportAnswers client org since (Suc n) rest"

definition stamp :: "string \<Rightarrow> PRStruct \<Rightarrow> PRStruct" where
  \<comment> \<open>\<open>pullrequest.Repository = repoName\<close>\<close>
  "stamp repoName pullrequest = pullrequest\<lparr>Repository := repoName\<rparr>"

text \<open>Values for the examples: an organization with five repositories.\<close>

definition exPageInfo :: "bool \<Rightarrow> string \<Rightarrow> PageInfoStruct" where
  "exPageInfo hasNext cursor =
     \<lparr>HasNextPage = hasNext, StartCursor = [], EndCursor = cursor, HasPreviousPage = False\<rparr>"

definition exRateLimit :: "int \<Rightarrow> RateLimitStruct" where
  "exRateLimit n = \<lparr>Limit = 5000, Cost = 1, Remaining = n, ResetAt = ''2018-03-08T13:00:00Z''\<rparr>"

definition exPR :: "int \<Rightarrow> string \<Rightarrow> string \<Rightarrow> string \<Rightarrow> int \<Rightarrow> PRStruct" where
  "exPR n created merged st events =
     \<lparr>Number = n, Title = ''change'', Repository = [], CreatedAt = created, MergedAt = merged,
      State = st, Participants_Nodes = [\<lparr>Login = ''dev''\<rparr>],
      Participants_PageInfo = exPageInfo False [], Participants_TotalCount = 1,
      Timeline_TotalCount = events\<rparr>"

definition exRepositories :: "string list \<Rightarrow> bool \<Rightarrow> string \<Rightarrow> repositoriesResponseStruct" where
  "exRepositories names hasNext cursor =
     \<lparr>Repositories_Nodes = map (\<lambda>n. \<lparr>Name = n, Owner = \<lparr>Login = ''AirVantage''\<rparr>\<rparr>) names,
      Repositories_PageInfo = exPageInfo hasNext cursor,
      Repositories_TotalCount = 5,
      Repositories_RateLimit = exRateLimit 4999\<rparr>"

definition exReport :: "string \<Rightarrow> PRStruct list \<Rightarrow> PRStruct list \<Rightarrow> reportResponseStruct" where
  "exReport repoName merged opened =
     \<lparr>Repository_Name = repoName,
      MergedPR_Nodes = merged, MergedPR_PageInfo = exPageInfo False [],
      MergedPR_TotalCount = int (length merged),
      OpenPR_Nodes = opened, OpenPR_PageInfo = exPageInfo False [],
      OpenPR_TotalCount = int (length opened),
      Refs_Nodes = [], Refs_PageInfo = exPageInfo False [], Refs_TotalCount = 0,
      Report_RateLimit = exRateLimit 4990\<rparr>"

text \<open>
  The repository listing has three pages: alpha, beta, gamma with \<open>hasNextPage\<close> and
  the cursor \<open>c1\<close>, then delta with the cursor \<open>c2\<close>, then epsilon. The merged nodes
  carry no state: the merged query does not select it.
\<close>

definition exListing :: "Request \<Rightarrow> repositoriesResponseStruct \<times> string option" where
  "exListing req =
     (if vars req ''cursor'' = Some (VString ''c1'')
      then (exRepositories [''delta''] True ''c2'', None)
      else if vars req ''cursor'' = Some (VString ''c2'')
      then (exRepositories [''epsilon''] False [], None)
      else (exRepositories [''alpha'', ''beta'', ''gamma''] True ''c1'', None))"

definition exAlpha :: reportResponseStruct where
  "exAlpha = exReport ''alpha''
     [exPR 1 ''2018-03-01T09:00:00Z'' ''2018-03-06T10:00:00Z'' [] 0,
      exPR 2 ''2018-02-20T09:00:00Z'' ''2018-02-26T10:00:00Z'' [] 0,
      exPR 3 ''2018-03-05T09:00:00Z'' ''2018-03-07T10:00:00Z'' [] 0]
     [exPR 4 ''2018-03-02T09:00:00Z'' [] ''OPEN'' 3,
      exPR 5 ''2018-01-15T09:00:00Z'' [] ''OPEN'' 0]"

definition exBeta :: reportResponseStruct where
  "exBeta = exReport ''beta'' [] [exPR 7 ''2018-03-04T09:00:00Z'' [] ''OPEN'' 1]"

definition exGamma :: reportResponseStruct where
  "exGamma = exReport ''gamma'' [exPR 8 ''2018-03-03T09:00:00Z'' ''yesterday'' [] 0] []"

definition exDelta :: reportResponseStruct where
  "exDelta = exReport ''delta'' [] [exPR 9 ''2018-03-06T09:00:00Z'' [] ''OPEN'' 2]"

definition exReports :: "Request \<Rightarrow> reportResponseStruct \<times> string option" where
  "exReports req =
     (if vars req ''repo'' = Some (VString ''alpha'') then (exAlpha, None)
      else if vars req ''repo'' = Some (VString ''beta'') then (exBeta, None)
      else if vars req ''repo'' = Some (VString ''gamma'') then (exGamma, None)
      else (exDelta, None))"

definition exClient :: graphql_Client where
  "exClient = \<lparr>run_repositories = (\<lambda>n. exListing), run_report = (\<lambda>n. exReports)\<rparr>"

text \<open>The same remote, except that the report request for beta fails.\<close>

definition exClientFailing :: graphql_Client where
  "exClientFailing =
     \<lparr>run_repositories = (\<lambda>n. exListing),
      run_report = (\<lambda>n req. if vars req ''repo'' = Some (VString ''beta'')
                            then (exReport [] [] [], Some ''timeout'') else exReports req)\<rparr>"

text \<open>The same remote, except that the request for the second listing page fails.\<close>

definition exClientPageFails :: graphql_Client where
  "exClientPageFails =
     \<lparr>run_repositories = (\<lambda>n req. if vars req ''cursor'' = Some (VString ''c1'')
                                  then (exRepositories [] False [], Some ''bad gateway'')
                                  else exListing req),
      run_report = (\<lambda>n. exReports)\<rparr>"

text \<open>
  A remote whose open list holds a closed pull request and one without a state.
\<close>

definition exStale :: reportResponseStruct where
  "exStale = exReport ''alpha'' []
     [exPR 23 ''2018-03-02T09:00:00Z'' [] ''CLOSED'' 2,
      exPR 24 ''2018-03-03T09:00:00Z'' [] [] 0]"

definition exClientStale :: graphql_Client where
  "exClientStale =
     \<lparr>run_repositories = (\<lambda>n req. (exRepositories [''alpha''] False [], None)),
      run_report = (\<lambda>n req. (exStale, None))\<rparr>"

text \<open>
  A clock in UTC, where a calendar day is 24 hours, read on March 8, 2018 at noon.
\<close>

definition exAddDate :: "Time \<Rightarrow> int \<Rightarrow> Time" where
  "exAddDate t days = t + days * nsPerDay"

definition exClock :: clock where
  "exClock = \<lparr>Now = Date 2018 3 8 12 0 0 0, AddDate = exAddDate\<rparr>"

definition exWorld :: world where
  "exWorld = \<lparr>calls = 0, logged = []\<rparr>"

definition printLog :: "string \<Rightarrow> string list \<Rightarrow> string list" where
  \<comment> \<open>the sink \<open>func(s string) { log.Println(s) }\<close>: one more line of output\<close>
  "printLog s out = out @ [s]"

definition exActivityReport :: ActivityReport where
  "exActivityReport = (NewActivityReport ''AirVantage'' ''GH_TOKEN'' 7)\<lparr>Log := Some printLog\<rparr>"

text \<open>
  The answers to the report requests of a whole run: none when the listing failed,
  else one per listed repository, from the call after the listing on. \<open>succeeded\<close>
  is the part of them the loop gets through, \<open>firstFailure\<close> the answer that stops it.
\<close>

definition runSince :: "clock \<Rightarrow> ActivityReport \<Rightarrow> Time" where
  \<comment> \<open>\<open>since := now.AddDate(0, 0, -gr.Duration)\<close>\<close>
  "runSince clk gr = AddDate clk (Now clk) (neg_int (Duration gr))"

definition runListing ::
  "graphql_Client \<Rightarrow> ActivityReport \<Rightarrow> world \<Rightarrow> repositoriesResponseStruct \<times> string option" where
  "runListing client gr w =
     run_repositories client (calls w) (listSubsetRepositories_request (Organization gr) [])"

definition runAnswers ::
  "graphql_Client \<Rightarrow> clock \<Rightarrow> ActivityReport \<Rightarrow> world \<Rightarrow>
     (string \<times> reportResponseStruct \<times> string option) list" where
  "runAnswers client clk gr w =
     (case runListing client gr w of
        (respData, Some err) \<Rightarrow> []
      | (respData, None) \<Rightarrow>
          reportAnswers client (Organization gr) (runSince clk gr) (Suc (calls w))
            (map Name (Repositories_Nodes respData)))"

fun succeeded ::
  "(string \<times> reportResponseStruct \<times> string option) list \<Rightarrow>
     (string \<times> reportResponseStruct) list" where
  "succeeded [] = []"
| "succeeded ((repoName, report, None) # rest) = (repoName, report) # succeeded rest"
| "succeeded ((repoName, report, Some err) # rest) = []"

fun firstFailure ::
  "(string \<times> reportResponseStruct \<times> string option) list \<Rightarrow> (string \<times> string) option" where
  "firstFailure [] = None"
| "firstFailure ((repoName, report, None) # rest) = firstFailure rest"
| "firstFailure ((repoName, report, Some err) # rest) = Some (repoName, err)"

definition mergedOf :: "Time \<Rightarrow> string \<times> reportResponseStruct \<Rightarrow> PRStruct list" where
  \<comment> \<open>the merged nodes of one answer that pass the test of \<open>Run\<close>, stamped\<close>
  "mergedOf since a =
     map (stamp (fst a))
       (filter (\<lambda>p. After (time_Parse (MergedAt p)) since) (MergedPR_Nodes (snd a)))"

definition openOf :: "string \<times> reportResponseStruct \<Rightarrow> PRStruct list" where
  \<comment> \<open>the open nodes of one answer, stamped\<close>
  "openOf a = map (stamp (fst a)) (OpenPR_Nodes (snd a))"

definition hasActivity :: "PRStruct \<Rightarrow> bool" where
  "hasActivity p = (Timeline_TotalCount p > 0)"


text \<open>
  The report object after the build blocks of a list of answers, and the text the
  sink holds after their credit lines.
\<close>

definition buildAll ::
  "Time \<Rightarrow> ActivityReport \<Rightarrow> (string \<times> reportResponseStruct) list \<Rightarrow> ActivityReport" where
  "buildAll since gr as = foldl (\<lambda>g a. buildReport since (fst a) (snd a) g) gr as"

definition creditLines ::
  "(string \<Rightarrow> string list \<Rightarrow> string list) \<Rightarrow> string list \<Rightarrow>
     (string \<times> reportResponseStruct) list \<Rightarrow> string list" where
  "creditLines f out as =
     foldl (\<lambda>out a. f (creditsRemaining (Report_RateLimit (snd a))) out) out as"

text \<open>
  What the insertion sort computes, as a function on lists: \<open>insertLeft k x r\<close> moves
  \<open>x\<close> to the left past the elements with a greater key, \<open>r\<close> being the part
  already sorted, nearest element first; \<open>insertedAll\<close> inserts the elements one after
  the other.
\<close>

fun insertLeft :: "('a \<Rightarrow> 'k::linorder) \<Rightarrow> 'a \<Rightarrow> 'a list \<Rightarrow> 'a list" where
  "insertLeft k x [] = [x]"
| "insertLeft k x (y # r) = (if k x < k y then y # insertLeft k x r else x # y # r)"

definition insertedAll :: "('a \<Rightarrow> 'k::linorder) \<Rightarrow> 'a list \<Rightarrow> 'a list" where
  "insertedAll k xs = rev (foldl (\<lambda>r x. insertLeft k x r) [] xs)"

text \<open>
  A slice is in order for an interface when no element is \<open>Less\<close> than one that
  stands before it: what a sort routine driven by the interface has to establish.
\<close>

definition inOrder :: "('a list \<Rightarrow> nat \<Rightarrow> nat \<Rightarrow> bool exec) \<Rightarrow> 'a list \<Rightarrow> bool" where
  "inOrder Less data =
     list_all (\<lambda>j. list_all (\<lambda>i. Less data j i = Done False) [0..<j]) [0..<length data]"

text \<open>Lists for the examples of the two orderings.\<close>

definition exActivityList :: "PRStruct list" where
  "exActivityList =
     [exPR 1 ''2018-03-01T09:00:00Z'' [] ''OPEN'' 3, exPR 2 ''2018-03-02T09:00:00Z'' [] ''OPEN'' 5,
      exPR 3 ''2018-03-03T09:00:00Z'' [] ''OPEN'' 3, exPR 4 ''2018-03-04T09:00:00Z'' [] ''OPEN'' 5]"

definition exActivitySorted :: "PRStruct list" where
  \<comment> \<open>the records of \<open>exActivityList\<close> by descending count, ties in input order\<close>
  "exActivitySorted =
     [exPR 2 ''2018-03-02T09:00:00Z'' [] ''OPEN'' 5, exPR 4 ''2018-03-04T09:00:00Z'' [] ''OPEN'' 5,
      exPR 1 ''2018-03-01T09:00:00Z'' [] ''OPEN'' 3, exPR 3 ''2018-03-03T09:00:00Z'' [] ''OPEN'' 3]"

definition exActivityTiesSwapped :: "PRStruct list" where
  \<comment> \<open>the same by descending count, each pair of ties the other way round\<close>
  "exActivityTiesSwapped =
     [exPR 4 ''2018-03-04T09:00:00Z'' [] ''OPEN'' 5, exPR 2 ''2018-03-02T09:00:00Z'' [] ''OPEN'' 5,
      exPR 3 ''2018-03-03T09:00:00Z'' [] ''OPEN'' 3, exPR 1 ''2018-03-01T09:00:00Z'' [] ''OPEN'' 3]"

definition exAgeList :: "PRStruct list" where
  "exAgeList =
     [exPR 1 ''2018-03-02T09:00:00Z'' [] ''OPEN'' 0, exPR 2 ''not a date'' [] ''OPEN'' 0,
      exPR 3 ''2018-01-15T09:00:00Z'' [] ''OPEN'' 0]"

definition exYearZeroList :: "PRStruct list" where
  "exYearZeroList =
     [exPR 1 ''not a date'' [] ''OPEN'' 0, exPR 2 ''0000-06-15T12:00:00Z'' [] ''OPEN'' 0]"

declare listRepositories.simps [code]

section \<open>Lemmas: the calls, the build block, the loop, Run\<close>

lemma foldl_snoc_map: "foldl (\<lambda>acc x. acc @ [f x]) a xs = a @ map f xs"
  by (induction xs arbitrary: a) simp_all

lemma repositoryNames_map: "repositoryNames respData = map Name (Repositories_Nodes respData)"
  by (simp add: repositoryNames_def foldl_snoc_map)

lemma listSubsetRepositories_eq:
  assumes "Log gr = Some f"
  shows "listSubsetRepositories gr client organization cursor w =
           (case run_repositories client (calls w)
                   (listSubsetRepositories_request organization cursor) of
              (respData, Some err) \<Rightarrow> (Done (Inl err), w\<lparr>calls := Suc (calls w)\<rparr>)
            | (respData, None) \<Rightarrow>
                (Done (Inr (map Name (Repositories_Nodes respData))),
                 w\<lparr>calls := Suc (calls w),
                   logged := f (creditsRemaining (Repositories_RateLimit respData)) (logged w)\<rparr>))"
  using assms
  by (simp add: listSubsetRepositories_def client_Run_repositories_def logf_def
      repositoryNames_map split: prod.splits option.splits)

lemma reportRepository_eq:
  assumes "Log gr = Some f"
  shows "reportRepository gr client organization repository since w =
           (case run_report client (calls w)
                   (reportRepository_request organization repository since) of
              (respData, Some err) \<Rightarrow> (Done (respData, Some err), w\<lparr>calls := Suc (calls w)\<rparr>)
            | (respData, None) \<Rightarrow>
                (Done (respData, None),
                 w\<lparr>calls := Suc (calls w),
                   logged := f (creditsRemaining (Report_RateLimit respData)) (logged w)\<rparr>))"
  using assms
  by (simp add: reportRepository_def client_Run_report_def logf_def
      split: prod.splits option.splits)

lemma foldl_extractMergedPR:
  "foldl (extractMergedPR since r) gr ps =
     gr\<lparr>Result := (Result gr)\<lparr>MergedPRs := MergedPRs (Result gr) @
        map (stamp r) (filter (\<lambda>p. After (time_Parse (MergedAt p)) since) ps)\<rparr>\<rparr>"
  by (induction ps arbitrary: gr) (simp_all add: extractMergedPR_def Let_def stamp_def)

lemma foldl_extractOpenPR:
  "foldl (extractOpenPR r) gr ps =
     gr\<lparr>Result := (Result gr)
        \<lparr>OpenPRsWithActivity := OpenPRsWithActivity (Result gr) @
           filter hasActivity (map (stamp r) ps),
         OpenPRsWithoutActivity := OpenPRsWithoutActivity (Result gr) @
           filter (\<lambda>p. \<not> hasActivity p) (map (stamp r) ps)\<rparr>\<rparr>"
  by (induction ps arbitrary: gr)
     (simp_all add: extractOpenPR_def Let_def stamp_def hasActivity_def)

lemma buildReport_eq:
  "buildReport since r rep gr =
     gr\<lparr>Result :=
          \<lparr>MergedPRs = MergedPRs (Result gr) @ mergedOf since (r, rep),
           OpenPRsWithActivity = OpenPRsWithActivity (Result gr) @
             filter hasActivity (openOf (r, rep)),
           OpenPRsWithoutActivity = OpenPRsWithoutActivity (Result gr) @
             filter (\<lambda>p. \<not> hasActivity p) (openOf (r, rep))\<rparr>\<rparr>"
  by (simp add: buildReport_def foldl_extractMergedPR foldl_extractOpenPR mergedOf_def
      openOf_def)

lemma buildAll_eq:
  "buildAll since gr as =
     gr\<lparr>Result :=
          \<lparr>MergedPRs = MergedPRs (Result gr) @ concat (map (mergedOf since) as),
           OpenPRsWithActivity = OpenPRsWithActivity (Result gr) @
             filter hasActivity (concat (map openOf as)),
           OpenPRsWithoutActivity = OpenPRsWithoutActivity (Result gr) @
             filter (\<lambda>p. \<not> hasActivity p) (concat (map openOf as))\<rparr>\<rparr>"
  unfolding buildAll_def
proof (induction as arbitrary: gr)
  case Nil
  show ?case by simp
next
  case (Cons a as)
  show ?case
    by (simp add: Cons.IH) (simp add: buildReport_eq)
qed

lemma buildAll_Cons:
  "buildAll since gr (a # as) = buildAll since (buildReport since (fst a) (snd a) gr) as"
  by (simp add: buildAll_def)

lemma buildReport_fields [simp]:
  "Organization (buildReport since r rep gr) = Organization gr"
  "Log (buildReport since r rep gr) = Log gr"
  by (simp_all add: buildReport_eq)

lemma Run_repositories_eq:
  assumes "Log gr = Some f"
  shows "Run_repositories client since repos gr w =
           (let answers = reportAnswers client (Organization gr) since (calls w) repos
            in ((case firstFailure answers of
                   None \<Rightarrow> Done None
                 | Some (r, err) \<Rightarrow> Done (Some (reportError r err))),
                buildAll since gr (succeeded answers),
                w\<lparr>calls := calls w + length (succeeded answers) +
                              (case firstFailure answers of None \<Rightarrow> 0 | Some x \<Rightarrow> 1),
                  logged := creditLines f (logged w) (succeeded answers)\<rparr>))"
  using assms
proof (induction repos arbitrary: gr w)
  case Nil
  show ?case by (simp add: buildAll_def creditLines_def)
next
  case (Cons r repos)
  obtain rep e where a: "run_report client (calls w)
      (reportRepository_request (Organization gr) r since) = (rep, e)"
    by (cases "run_report client (calls w)
      (reportRepository_request (Organization gr) r since)") 
  show ?case
  proof (cases e)
    case None
    have L: "Log (buildReport since r rep gr) = Some f"
      using Cons.prems by simp
    show ?thesis
      using Cons.prems
      by (simp add: reportRepository_eq [OF Cons.prems] a None Cons.IH [OF L] Let_def
          buildAll_Cons creditLines_def)
  next
    case (Some err)
    show ?thesis
      by (simp add: reportRepository_eq [OF Cons.prems] a Some Let_def buildAll_def
          creditLines_def)
  qed
qed


lemma Run_summary_eq:
  assumes "Log gr = Some f"
  shows "\<exists>out. Run_summary gr w = (Done None, gr, w\<lparr>logged := out\<rparr>)"
proof -
  have "Run_summary gr w =
          (Done None, gr, w\<lparr>logged := logged (snd (snd (Run_summary gr w)))\<rparr>)"
    using assms by (simp add: Run_summary_def logf_def)
  then show ?thesis ..
qed

lemma Run_eq:
  assumes "Log gr = Some f"
  shows "\<exists>out. Run client clk gr w =
           (case runListing client gr w of
              (respData, Some err) \<Rightarrow>
                (Done (Some (listingError err)), gr\<lparr>ReportDate := Now clk\<rparr>,
                 w\<lparr>calls := Suc (calls w)\<rparr>)
            | (respData, None) \<Rightarrow>
                ((case firstFailure (runAnswers client clk gr w) of
                    None \<Rightarrow> Done None
                  | Some (r, err) \<Rightarrow> Done (Some (reportError r err))),
                 buildAll (runSince clk gr) (gr\<lparr>ReportDate := Now clk\<rparr>)
                   (succeeded (runAnswers client clk gr w)),
                 w\<lparr>calls := Suc (calls w) + length (succeeded (runAnswers client clk gr w)) +
                      (case firstFailure (runAnswers client clk gr w) of
                         None \<Rightarrow> 0 | Some x \<Rightarrow> 1),
                   logged := out\<rparr>))"
proof -
  obtain respData e where l: "runListing client gr w = (respData, e)"
    by (cases "runListing client gr w")
  have L: "Log (gr\<lparr>ReportDate := Now clk\<rparr>) = Some f"
    using assms by simp
  show ?thesis
  proof (cases e)
    case (Some err)
    have "Run client clk gr w =
            (Done (Some (listingError err)), gr\<lparr>ReportDate := Now clk\<rparr>,
             w\<lparr>calls := Suc (calls w)\<rparr>)"
      using l Some
      by (simp add: Run_def Let_def listSubsetRepositories_eq [OF L] runListing_def)
    moreover have "w\<lparr>calls := Suc (calls w)\<rparr> = w\<lparr>calls := Suc (calls w)\<rparr>" ..
    ultimately show ?thesis
      using l Some by simp
  next
    case None
    let ?as = "runAnswers client clk gr w"
    let ?w1 = "w\<lparr>calls := Suc (calls w),
                  logged := f (creditsRemaining (Repositories_RateLimit respData)) (logged w)\<rparr>"
    have as: "?as = reportAnswers client (Organization gr) (runSince clk gr) (Suc (calls w))
                      (map Name (Repositories_Nodes respData))"
      using l None by (simp add: runAnswers_def)
    have ls: "listSubsetRepositories (gr\<lparr>ReportDate := Now clk\<rparr>) client (Organization gr) [] w =
                (Done (Inr (map Name (Repositories_Nodes respData))), ?w1)"
      using l None by (simp add: listSubsetRepositories_eq [OF L] runListing_def)
    have rr: "Run_repositories client (runSince clk gr) (map Name (Repositories_Nodes respData))
                (gr\<lparr>ReportDate := Now clk\<rparr>) ?w1 =
              ((case firstFailure ?as of
                  None \<Rightarrow> Done None
                | Some (r, err) \<Rightarrow> Done (Some (reportError r err))),
               buildAll (runSince clk gr) (gr\<lparr>ReportDate := Now clk\<rparr>) (succeeded ?as),
               ?w1\<lparr>calls := calls ?w1 + length (succeeded ?as) +
                      (case firstFailure ?as of None \<Rightarrow> 0 | Some x \<Rightarrow> 1),
                    logged := creditLines f (logged ?w1) (succeeded ?as)\<rparr>)"
      by (simp add: Run_repositories_eq [OF L] as Let_def)
    show ?thesis
    proof (cases "firstFailure ?as")
      case None
      have Lb: "Log (buildAll (runSince clk gr) (gr\<lparr>ReportDate := Now clk\<rparr>) (succeeded ?as)) = Some f"
        using assms by (simp add: buildAll_eq)
      obtain out where
        "Run_summary (buildAll (runSince clk gr) (gr\<lparr>ReportDate := Now clk\<rparr>) (succeeded ?as))
           (?w1\<lparr>calls := calls ?w1 + length (succeeded ?as) + 0,
                logged := creditLines f (logged ?w1) (succeeded ?as)\<rparr>) =
         (Done None, buildAll (runSince clk gr) (gr\<lparr>ReportDate := Now clk\<rparr>) (succeeded ?as),
          ?w1\<lparr>calls := calls ?w1 + length (succeeded ?as) + 0,
               logged := creditLines f (logged ?w1) (succeeded ?as)\<rparr>\<lparr>logged := out\<rparr>)"
        using Run_summary_eq [OF Lb] by blast
      then have "Run client clk gr w =
          (Done None, buildAll (runSince clk gr) (gr\<lparr>ReportDate := Now clk\<rparr>) (succeeded ?as),
           w\<lparr>calls := Suc (calls w) + length (succeeded ?as) + 0, logged := out\<rparr>)"
        using rr None
        by (simp add: Run_def Let_def ls runSince_def)
      then show ?thesis
        using l \<open>e = None\<close> None by auto
    next
      case (Some x)
      obtain r err where x: "x = (r, err)" by (cases x)
      have "Run client clk gr w =
          (Done (Some (reportError r err)),
           buildAll (runSince clk gr) (gr\<lparr>ReportDate := Now clk\<rparr>) (succeeded ?as),
           w\<lparr>calls := Suc (calls w) + length (succeeded ?as) + 1,
             logged := creditLines f (logged ?w1) (succeeded ?as)\<rparr>)"
        using rr Some x
        by (simp add: Run_def Let_def ls runSince_def)
      then show ?thesis
        using l \<open>e = None\<close> Some x by auto
    qed
  qed
qed


lemma runAnswers_listing_failed:
  "runListing client gr w = (respData, Some err) \<Longrightarrow> runAnswers client clk gr w = []"
  by (simp add: runAnswers_def)

lemma Run_outcome:
  assumes "Log gr = Some f"
  shows "fst (Run client clk gr w) =
           (case runListing client gr w of
              (respData, Some err) \<Rightarrow> Done (Some (listingError err))
            | (respData, None) \<Rightarrow>
                (case firstFailure (runAnswers client clk gr w) of
                   None \<Rightarrow> Done None
                 | Some (r, err) \<Rightarrow> Done (Some (reportError r err))))"
proof -
  obtain respData e where l: "runListing client gr w = (respData, e)"
    by (cases "runListing client gr w")
  from Run_eq [OF assms, of client clk w] l show ?thesis
    by (cases e) auto
qed

lemma Run_report:
  assumes "Log gr = Some f"
  shows "fst (snd (Run client clk gr w)) =
           buildAll (runSince clk gr) (gr\<lparr>ReportDate := Now clk\<rparr>)
             (succeeded (runAnswers client clk gr w))"
proof -
  obtain respData e where l: "runListing client gr w = (respData, e)"
    by (cases "runListing client gr w")
  from Run_eq [OF assms, of client clk w] l show ?thesis
    by (cases e) (auto simp add: runAnswers_listing_failed buildAll_def)
qed

lemma Run_calls:
  assumes "Log gr = Some f"
  shows "calls (snd (snd (Run client clk gr w))) =
           Suc (calls w) + length (succeeded (runAnswers client clk gr w)) +
             (case firstFailure (runAnswers client clk gr w) of None \<Rightarrow> 0 | Some x \<Rightarrow> 1)"
proof -
  obtain respData e where l: "runListing client gr w = (respData, e)"
    by (cases "runListing client gr w")
  from Run_eq [OF assms, of client clk w] l show ?thesis
    by (cases e) (auto simp add: runAnswers_listing_failed)
qed

lemma Run_nil_Log:
  assumes "Log gr = None" and "snd (runListing client gr w) = None"
  shows "fst (Run client clk gr w) = Panic"
proof -
  obtain respData where "runListing client gr w = (respData, None)"
    using assms(2) by (cases "runListing client gr w") simp
  then show ?thesis
    using assms(1)
    by (simp add: Run_def listSubsetRepositories_def client_Run_repositories_def logf_def
        runListing_def Let_def)
qed

lemma Run_buckets:
  assumes "Log gr = Some f"
  shows "MergedPRs (Result (fst (snd (Run client clk gr w)))) =
           MergedPRs (Result gr) @
             concat (map (mergedOf (runSince clk gr)) (succeeded (runAnswers client clk gr w)))"
    and "OpenPRsWithActivity (Result (fst (snd (Run client clk gr w)))) =
           OpenPRsWithActivity (Result gr) @
             filter hasActivity (concat (map openOf (succeeded (runAnswers client clk gr w))))"
    and "OpenPRsWithoutActivity (Result (fst (snd (Run client clk gr w)))) =
           OpenPRsWithoutActivity (Result gr) @
             filter (\<lambda>p. \<not> hasActivity p)
               (concat (map openOf (succeeded (runAnswers client clk gr w))))"
  by (simp_all add: Run_report [OF assms] buildAll_eq)


lemma firstFailure_None_succeeded:
  "firstFailure as = None \<Longrightarrow> map (\<lambda>a. (fst a, fst (snd a))) as = succeeded as"
  by (induction as rule: firstFailure.induct) simp_all

lemma stamp_in_mergedOf:
  assumes "p \<in> set (MergedPR_Nodes (snd a))"
  shows "stamp (fst a) p \<in> set (mergedOf since a) \<longleftrightarrow> After (time_Parse (MergedAt p)) since"
proof
  assume "stamp (fst a) p \<in> set (mergedOf since a)"
  then obtain q where q: "After (time_Parse (MergedAt q)) since"
      and eq: "stamp (fst a) p = stamp (fst a) q"
    by (auto simp add: mergedOf_def)
  from eq have "MergedAt (stamp (fst a) p) = MergedAt (stamp (fst a) q)" by simp
  then have "MergedAt p = MergedAt q" by (simp add: stamp_def)
  with q show "After (time_Parse (MergedAt p)) since" by simp
next
  assume "After (time_Parse (MergedAt p)) since"
  with assms show "stamp (fst a) p \<in> set (mergedOf since a)"
    by (simp add: mergedOf_def)
qed

lemma time_Parse_unparseable: "parseISO s = None \<Longrightarrow> time_Parse s = zeroTime"
  by (simp add: time_Parse_def)

lemma openOf_origin:
  "p \<in> set (openOf a) \<Longrightarrow>
     \<exists>q \<in> set (OpenPR_Nodes (snd a)). p = stamp (fst a) q \<and> State p = State q"
  by (auto simp add: openOf_def stamp_def)

lemma inOrder_iff:
  "inOrder Less data \<longleftrightarrow> (\<forall>j < length data. \<forall>i < j. Less data j i = Done False)"
  by (auto simp add: inOrder_def list_all_iff)



subsection \<open>listRepositories, one page at a time\<close>

lemma listRepositories_page:
  assumes "Log gr = Some f"
  shows "listRepositories gr client organization cursor w =
           (case run_repositories client (calls w)
                   (listRepositories_request organization cursor) of
              (respData, Some err) \<Rightarrow> Some (Done (Inl err), w\<lparr>calls := Suc (calls w)\<rparr>)
            | (respData, None) \<Rightarrow>
                if HasNextPage (Repositories_PageInfo respData)
                then (case listRepositories gr client organization
                             (EndCursor (Repositories_PageInfo respData))
                             (w\<lparr>calls := Suc (calls w)\<rparr>) of
                        None \<Rightarrow> None
                      | Some (Panic, w2) \<Rightarrow> Some (Panic, w2)
                      | Some (Done (Inl err), w2) \<Rightarrow> Some (Done (Inl err), w2)
                      | Some (Done (Inr additionalRepos), w2) \<Rightarrow>
                          Some (Done (Inr (map Name (Repositories_Nodes respData)
                                           @ additionalRepos)),
                                w2\<lparr>logged := f (creditsRemaining
                                                   (Repositories_RateLimit respData))
                                                (logged w2)\<rparr>))
                else Some (Done (Inr (map Name (Repositories_Nodes respData))),
                           w\<lparr>calls := Suc (calls w),
                             logged := f (creditsRemaining (Repositories_RateLimit respData))
                                         (logged w)\<rparr>))"
  using assms
  by (subst listRepositories.simps)
     (simp add: client_Run_repositories_def listRepositories_return_def logf_def
        repositoryNames_map Let_def
        split: prod.splits option.splits exec.splits sum.splits)

subsection \<open>The insertion sort over the interface\<close>

lemma length_insertLeft [simp]: "length (insertLeft k x r) = Suc (length r)"
  by (induction r) simp_all

lemma mset_insertLeft [simp]: "mset (insertLeft k x r) = add_mset x (mset r)"
  by (induction r) simp_all

lemma set_insertLeft [simp]: "set (insertLeft k x r) = insert x (set r)"
  by (induction r) auto

lemma sorted_insertLeft:
  "sorted_wrt (\<lambda>a b. k b \<le> k a) r \<Longrightarrow> sorted_wrt (\<lambda>a b. k b \<le> k a) (insertLeft k x r)"
  by (induction r) (auto simp add: less_imp_le)

lemma foldl_insertLeft_length [simp]:
  "length (foldl (\<lambda>r x. insertLeft k x r) r0 xs) = length r0 + length xs"
  by (induction xs arbitrary: r0) simp_all

lemma foldl_insertLeft_mset:
  "mset (foldl (\<lambda>r x. insertLeft k x r) r0 xs) = mset r0 + mset xs"
  by (induction xs arbitrary: r0) simp_all

lemma foldl_insertLeft_sorted:
  "sorted_wrt (\<lambda>a b. k b \<le> k a) r0 \<Longrightarrow>
   sorted_wrt (\<lambda>a b. k b \<le> k a) (foldl (\<lambda>r x. insertLeft k x r) r0 xs)"
  by (induction xs arbitrary: r0) (simp_all add: sorted_insertLeft)

lemma insertedAll_mset: "mset (insertedAll k xs) = mset xs"
  by (simp add: insertedAll_def foldl_insertLeft_mset)

lemma insertedAll_sorted: "sorted (map k (insertedAll k xs))"
proof -
  have "sorted_wrt (\<lambda>a b. k b \<le> k a) (foldl (\<lambda>r x. insertLeft k x r) [] xs)"
    by (rule foldl_insertLeft_sorted) simp
  then show ?thesis
    by (simp add: insertedAll_def sorted_map sorted_wrt_rev)
qed

lemma insertionSort_inner_eq:
  assumes Less: "\<forall>d i j. i < length d \<longrightarrow> j < length d \<longrightarrow>
                    Less d i j = Done (k (d ! i) < k (d ! j))"
    and Swap: "\<forall>d i j. i < length d \<longrightarrow> j < length d \<longrightarrow>
                    Swap d i j = Done (d[i := d ! j, j := d ! i])"
  shows "insertionSort_inner Less Swap 0 (length ys) (ys @ x # zs) =
           Done (rev (insertLeft k x (rev ys)) @ zs)"
proof (induction ys arbitrary: zs rule: rev_induct)
  case Nil
  show ?case by (simp add: insertionSort_inner.simps)
next
  case (snoc y ys)
  let ?d = "(ys @ [y]) @ x # zs"
  have len: "length ys < length ?d" "Suc (length ys) < length ?d" by simp_all
  have at: "?d ! Suc (length ys) = x" "?d ! length ys = y"
    by (simp_all add: nth_append)
  have L: "Less ?d (Suc (length ys)) (length ys) = Done (k x < k y)"
    using Less len at by simp
  show ?case
  proof (cases "k x < k y")
    case True
    have S: "Swap ?d (Suc (length ys)) (length ys) = Done (ys @ x # y # zs)"
      using Swap len at by (simp add: list_update_append)
    show ?thesis
      using True L S snoc.IH [of "y # zs"]
      by (subst insertionSort_inner.simps) simp
  next
    case False
    show ?thesis
      using False L by (subst insertionSort_inner.simps) simp
  qed
qed

lemma insertionSort_outer_eq:
  assumes Less: "\<forall>d i j. i < length d \<longrightarrow> j < length d \<longrightarrow>
                    Less d i j = Done (k (d ! i) < k (d ! j))"
    and Swap: "\<forall>d i j. i < length d \<longrightarrow> j < length d \<longrightarrow>
                    Swap d i j = Done (d[i := d ! j, j := d ! i])"
    and "i \<le> length xs"
  shows "insertionSort_outer Less Swap 0 i (length xs)
           (insertedAll k (take i xs) @ drop i xs) = Done (insertedAll k xs)"
  using assms(3)
proof (induction "length xs - i" arbitrary: i)
  case 0
  then show ?case by (subst insertionSort_outer.simps) simp
next
  case (Suc n)
  then have i: "i < length xs" by simp
  let ?ys = "insertedAll k (take i xs)"
  have ly: "length ?ys = i"
    using i by (simp add: insertedAll_def)
  have dr: "drop i xs = xs ! i # drop (Suc i) xs"
    using i by (simp add: Cons_nth_drop_Suc)
  have inner: "insertionSort_inner Less Swap 0 i (?ys @ drop i xs) =
                 Done (rev (insertLeft k (xs ! i) (rev ?ys)) @ drop (Suc i) xs)"
    using insertionSort_inner_eq [OF Less Swap, of ?ys "xs ! i" "drop (Suc i) xs"]
    by (simp add: ly dr)
  have step: "rev (insertLeft k (xs ! i) (rev ?ys)) = insertedAll k (take (Suc i) xs)"
    using i by (simp add: insertedAll_def take_Suc_conv_app_nth)
  have "insertionSort_outer Less Swap 0 (Suc i) (length xs)
          (insertedAll k (take (Suc i) xs) @ drop (Suc i) xs) = Done (insertedAll k xs)"
    using Suc.hyps(1) [of "Suc i"] Suc.hyps(2) i by simp
  then show ?case
    using i inner step by (subst insertionSort_outer.simps) simp
qed

lemma insertionSort_eq:
  assumes Less: "\<forall>d i j. i < length d \<longrightarrow> j < length d \<longrightarrow>
                    Less d i j = Done (k (d ! i) < k (d ! j))"
    and Swap: "\<forall>d i j. i < length d \<longrightarrow> j < length d \<longrightarrow>
                    Swap d i j = Done (d[i := d ! j, j := d ! i])"
  shows "insertionSort Less Swap xs 0 (length xs) = Done (insertedAll k xs)"
proof (cases xs)
  case Nil
  then show ?thesis
    by (simp add: insertionSort_def insertionSort_outer.simps insertedAll_def)
next
  case (Cons x xs')
  have "insertionSort_outer Less Swap 0 (Suc 0) (length xs)
           (insertedAll k (take (Suc 0) xs) @ drop (Suc 0) xs) = Done (insertedAll k xs)"
    by (rule insertionSort_outer_eq [OF Less Swap]) (simp add: Cons)
  then show ?thesis
    by (simp add: insertionSort_def Cons insertedAll_def)
qed

lemma ByAge_interface:
  "\<forall>d i j. i < length d \<longrightarrow> j < length d \<longrightarrow>
     ByAge_Less d i j = Done (time_Parse (CreatedAt (d ! i)) < time_Parse (CreatedAt (d ! j)))"
  "\<forall>d i j. i < length d \<longrightarrow> j < length d \<longrightarrow>
     ByAge_Swap d i j = Done (d[i := d ! j, j := d ! i])"
  by (simp_all add: ByAge_Less_def ByAge_Swap_def After_def Let_def)

lemma ByAge_insertionSort:
  "insertionSort ByAge_Less ByAge_Swap a 0 (ByAge_Len a) =
     Done (insertedAll (\<lambda>p. time_Parse (CreatedAt p)) a)"
  unfolding ByAge_Len_def
  by (rule insertionSort_eq [OF ByAge_interface])

subsection \<open>The example environments, evaluated\<close>

lemma ex_Log: "Log exActivityReport = Some printLog"
  by (simp add: exActivityReport_def)

lemma ex_fields:
  "Organization exActivityReport = ''AirVantage''"
  "Duration exActivityReport = 7"
  "MergedPRs (Result exActivityReport) = []"
  "OpenPRsWithActivity (Result exActivityReport) = []"
  "OpenPRsWithoutActivity (Result exActivityReport) = []"
  by (simp_all add: exActivityReport_def NewActivityReport_def)

lemma ex_since: "runSince exClock exActivityReport = 63655502400000000000"
  by (simp add: runSince_def ex_fields exClock_def exAddDate_def neg_int_def nsPerDay_def Date_def
      daysSinceEpoch_def daysBefore_def isLeap_def)

lemma ex_listing:
  "runListing exClient exActivityReport exWorld =
     (exRepositories [''alpha'', ''beta'', ''gamma''] True ''c1'', None)"
  "runListing exClientFailing exActivityReport exWorld =
     (exRepositories [''alpha'', ''beta'', ''gamma''] True ''c1'', None)"
  by (simp_all add: runListing_def exClient_def exClientFailing_def exListing_def
      listSubsetRepositories_request_def Var_def NewRequest_def)

lemma ex_repo_var:
  "vars (reportRepository_request org r since) ''repo'' = Some (VString r)"
  by (simp add: reportRepository_request_def Var_def NewRequest_def)

lemma ex_answers:
  "runAnswers exClient exClock exActivityReport exWorld =
     [(''alpha'', exAlpha, None), (''beta'', exBeta, None), (''gamma'', exGamma, None)]"
  by (simp add: runAnswers_def ex_listing exRepositories_def)
     (simp add: exClient_def exReports_def ex_repo_var)

lemma ex_answers_failing:
  "runAnswers exClientFailing exClock exActivityReport exWorld =
     [(''alpha'', exAlpha, None), (''beta'', exReport [] [] [], Some ''timeout''),
      (''gamma'', exGamma, None)]"
  by (simp add: runAnswers_def ex_listing exRepositories_def)
     (simp add: exClientFailing_def exReports_def ex_repo_var)

lemma ex_parse:
  "time_Parse ''2018-03-06T10:00:00Z'' = 63655927200000000000"
  "time_Parse ''2018-02-26T10:00:00Z'' = 63655236000000000000"
  "time_Parse ''2018-03-07T10:00:00Z'' = 63656013600000000000"
  "time_Parse ''yesterday'' = zeroTime"
  by code_simp+

lemma ex_mergedOf:
  "mergedOf 63655502400000000000 (''alpha'', exAlpha) =
     [stamp ''alpha'' (exPR 1 ''2018-03-01T09:00:00Z'' ''2018-03-06T10:00:00Z'' [] 0),
      stamp ''alpha'' (exPR 3 ''2018-03-05T09:00:00Z'' ''2018-03-07T10:00:00Z'' [] 0)]"
  "mergedOf 63655502400000000000 (''beta'', exBeta) = []"
  "mergedOf 63655502400000000000 (''gamma'', exGamma) = []"
  by (simp_all add: mergedOf_def exAlpha_def exBeta_def exGamma_def exReport_def exPR_def
      ex_parse After_def zeroTime_def)

lemma ex_openOf:
  "filter hasActivity (openOf (''alpha'', exAlpha)) =
     [stamp ''alpha'' (exPR 4 ''2018-03-02T09:00:00Z'' [] ''OPEN'' 3)]"
  "filter (\<lambda>p. \<not> hasActivity p) (openOf (''alpha'', exAlpha)) =
     [stamp ''alpha'' (exPR 5 ''2018-01-15T09:00:00Z'' [] ''OPEN'' 0)]"
  "filter hasActivity (openOf (''beta'', exBeta)) =
     [stamp ''beta'' (exPR 7 ''2018-03-04T09:00:00Z'' [] ''OPEN'' 1)]"
  "filter (\<lambda>p. \<not> hasActivity p) (openOf (''beta'', exBeta)) = []"
  "openOf (''gamma'', exGamma) = []"
  by (simp_all add: openOf_def exAlpha_def exBeta_def exGamma_def exReport_def exPR_def
      hasActivity_def stamp_def)

lemma ex_stamp: "Repository (stamp r p) = r" "Number (stamp r p) = Number p"
  "State (stamp r p) = State p" "MergedAt (stamp r p) = MergedAt p"
  "Timeline_TotalCount (stamp r p) = Timeline_TotalCount p"
  by (simp_all add: stamp_def)

lemma ex_PR: "Number (exPR n c m s k) = n" "State (exPR n c m s k) = s"
  "MergedAt (exPR n c m s k) = m" "Timeline_TotalCount (exPR n c m s k) = k"
  "CreatedAt (exPR n c m s k) = c"
  by (simp_all add: exPR_def)


lemma ex_pages:
  "run_repositories exClient n (listRepositories_request ''AirVantage'' []) =
     (exRepositories [''alpha'', ''beta'', ''gamma''] True ''c1'', None)"
  "run_repositories exClient n (listRepositories_request ''AirVantage'' ''c1'') =
     (exRepositories [''delta''] True ''c2'', None)"
  "run_repositories exClient n (listRepositories_request ''AirVantage'' ''c2'') =
     (exRepositories [''epsilon''] False [], None)"
  by (simp_all add: exClient_def exListing_def listRepositories_request_def Var_def
      NewRequest_def)

lemma ex_pageInfo:
  "HasNextPage (Repositories_PageInfo (exRepositories names hasNext cursor)) = hasNext"
  "EndCursor (Repositories_PageInfo (exRepositories names hasNext cursor)) = cursor"
  "map Name (Repositories_Nodes (exRepositories names hasNext cursor)) = names"
  "Repositories_RateLimit (exRepositories names hasNext cursor) = exRateLimit 4999"
  by (simp_all add: exRepositories_def exPageInfo_def comp_def)

lemma ex_credits: "creditsRemaining (exRateLimit 4999) = ''Credits remaining 4999'' @ newline"
  by code_simp

lemma ex_listRepositories:
  "listRepositories exActivityReport exClient ''AirVantage'' [] exWorld =
     Some (Done (Inr [''alpha'', ''beta'', ''gamma'', ''delta'', ''epsilon'']),
           \<lparr>calls = 3, logged = [''Credits remaining 4999'' @ newline,
                                 ''Credits remaining 4999'' @ newline,
                                 ''Credits remaining 4999'' @ newline]\<rparr>)"
proof -
  let ?line = "''Credits remaining 4999'' @ newline"
  have third: "listRepositories exActivityReport exClient ''AirVantage'' ''c2''
                 \<lparr>calls = Suc (Suc 0), logged = []\<rparr> =
               Some (Done (Inr [''epsilon'']),
                     \<lparr>calls = Suc (Suc (Suc 0)), logged = [?line]\<rparr>)"
    by (subst listRepositories_page [OF ex_Log])
       (simp add: ex_pages ex_pageInfo ex_credits printLog_def)
  have second: "listRepositories exActivityReport exClient ''AirVantage'' ''c1''
                  \<lparr>calls = Suc 0, logged = []\<rparr> =
                Some (Done (Inr [''delta'', ''epsilon'']),
                      \<lparr>calls = Suc (Suc (Suc 0)), logged = [?line, ?line]\<rparr>)"
    by (subst listRepositories_page [OF ex_Log])
       (simp add: ex_pages ex_pageInfo ex_credits printLog_def third)
  have "listRepositories exActivityReport exClient ''AirVantage'' [] \<lparr>calls = 0, logged = []\<rparr> =
          Some (Done (Inr [''alpha'', ''beta'', ''gamma'', ''delta'', ''epsilon'']),
                \<lparr>calls = Suc (Suc (Suc 0)), logged = [?line, ?line, ?line]\<rparr>)"
    by (subst listRepositories_page [OF ex_Log])
       (simp add: ex_pages ex_pageInfo ex_credits printLog_def second)
  then show ?thesis
    by (simp add: exWorld_def numeral_3_eq_3)
qed

lemma ex_failing_outcome:
  "fst (Run exClientFailing exClock exActivityReport exWorld) =
     Done (Some (reportError ''beta'' ''timeout''))"
  by (simp add: Run_outcome [OF ex_Log] ex_listing ex_answers_failing)

lemma ex_outcome: "fst (Run exClient exClock exActivityReport exWorld) = Done None"
  by (simp add: Run_outcome [OF ex_Log] ex_listing ex_answers)



lemma ex_stale_answers:
  "runListing exClientStale exActivityReport exWorld =
     (exRepositories [''alpha''] False [], None)"
  "runAnswers exClientStale exClock exActivityReport exWorld = [(''alpha'', exStale, None)]"
  by (simp_all add: runAnswers_def runListing_def exClientStale_def exRepositories_def)

lemma ex_created:
  "time_Parse ''2018-03-02T09:00:00Z'' = 63655578000000000000"
  "time_Parse ''2018-01-15T09:00:00Z'' = 63651603600000000000"
  "time_Parse ''0000-06-15T12:00:00Z'' = - 17236800000000000"
  "parseISO ''not a date'' = None"
  by code_simp+

lemma ex_insertedAll_age:
  "insertedAll (\<lambda>p. time_Parse (CreatedAt p)) exAgeList =
     [exPR 2 ''not a date'' [] ''OPEN'' 0, exPR 3 ''2018-01-15T09:00:00Z'' [] ''OPEN'' 0,
      exPR 1 ''2018-03-02T09:00:00Z'' [] ''OPEN'' 0]"
  by (simp add: insertedAll_def exAgeList_def ex_PR ex_created time_Parse_unparseable
      zeroTime_def)

section \<open>The claims\<close>

subsection \<open>Repository enumeration\<close>

text \<open>
  C1 (the code departs from it). The claim: a run enumerates every repository of the
  organization, following the pagination to its end, the single-page variant being
  kept for tests. \<open>Run\<close> calls \<open>listSubsetRepositories\<close>, the variant its own comment
  keeps for tests, and \<open>listRepositories\<close> is never called. On the example remote
  the full traversal lists five repositories over three pages, while \<open>Run\<close> stops
  after the first page although it announces a next one: four calls in all, and the
  open pull request 9 of delta is in no bucket.
\<close>

theorem Run_lists_one_page_only:
  "listRepositories exActivityReport exClient ''AirVantage'' [] exWorld =
     Some (Done (Inr [''alpha'', ''beta'', ''gamma'', ''delta'', ''epsilon'']),
           \<lparr>calls = 3, logged = [''Credits remaining 4999'' @ newline,
                                 ''Credits remaining 4999'' @ newline,
                                 ''Credits remaining 4999'' @ newline]\<rparr>)
   \<and> HasNextPage (Repositories_PageInfo (fst (runListing exClient exActivityReport exWorld)))
   \<and> fst (Run exClient exClock exActivityReport exWorld) = Done None
   \<and> calls (snd (snd (Run exClient exClock exActivityReport exWorld))) = 4
   \<and> map (\<lambda>p. (Repository p, Number p))
        (OpenPRsWithActivity (Result (fst (snd (Run exClient exClock exActivityReport exWorld)))))
       = [(''alpha'', 4), (''beta'', 7)]"
proof -
  have run: "HasNextPage (Repositories_PageInfo
                 (fst (runListing exClient exActivityReport exWorld)))
   \<and> fst (Run exClient exClock exActivityReport exWorld) = Done None
   \<and> calls (snd (snd (Run exClient exClock exActivityReport exWorld))) = 4
   \<and> map (\<lambda>p. (Repository p, Number p))
        (OpenPRsWithActivity (Result (fst (snd (Run exClient exClock exActivityReport exWorld)))))
       = [(''alpha'', 4), (''beta'', 7)]"
    by (simp add: Run_outcome [OF ex_Log] Run_report [OF ex_Log] Run_calls [OF ex_Log]
        ex_listing ex_answers ex_pageInfo buildAll_eq ex_since ex_openOf
        ex_stamp ex_PR ex_fields)
       (simp add: exWorld_def)
  from ex_listRepositories run show ?thesis by simp
qed

text \<open>
  C6. The bounded enumeration makes exactly one call on the client, with the page
  size 10, and returns the names of that one response, whatever its \<open>hasNextPage\<close>
  says; when the call fails it returns the error. (A logging sink is installed: the
  function logs the remaining credits after a successful call.)
\<close>

theorem listSubsetRepositories_one_page:
  assumes "Log gr = Some f"
  shows "listSubsetRepositories gr client organization cursor w =
           (case run_repositories client (calls w)
                   (listSubsetRepositories_request organization cursor) of
              (respData, Some err) \<Rightarrow> (Done (Inl err), w\<lparr>calls := Suc (calls w)\<rparr>)
            | (respData, None) \<Rightarrow>
                (Done (Inr (map Name (Repositories_Nodes respData))),
                 w\<lparr>calls := Suc (calls w),
                   logged := f (creditsRemaining (Repositories_RateLimit respData)) (logged w)\<rparr>))
         \<and> vars (listSubsetRepositories_request organization cursor) ''size'' = Some (VInt 10)"
  using assms
  by (simp add: listSubsetRepositories_def client_Run_repositories_def logf_def
      repositoryNames_map listSubsetRepositories_request_def Var_def Let_def
      split: prod.splits option.splits)

theorem listSubsetRepositories_one_page_witness:
  "Log exActivityReport = Some printLog
   \<and> HasNextPage (Repositories_PageInfo
        (fst (run_repositories exClient 0 (listSubsetRepositories_request ''AirVantage'' []))))
   \<and> listSubsetRepositories exActivityReport exClient ''AirVantage'' [] exWorld =
       (Done (Inr [''alpha'', ''beta'', ''gamma'']),
        \<lparr>calls = 1, logged = [''Credits remaining 4999'' @ newline]\<rparr>)"
proof -
  have R: "run_repositories exClient n (listSubsetRepositories_request ''AirVantage'' []) =
           (exRepositories [''alpha'', ''beta'', ''gamma''] True ''c1'', None)" for n
    by (simp add: exClient_def exListing_def listSubsetRepositories_request_def Var_def
        NewRequest_def)
  show ?thesis
    using listSubsetRepositories_one_page [OF ex_Log, of exClient "''AirVantage''" "[]" exWorld]
    by (simp add: R ex_Log ex_pageInfo ex_credits printLog_def) (simp add: exWorld_def)
qed

text \<open>
  C7. Three pages whose \<open>hasNextPage\<close> flags are true, true, false: the traversal
  asks for the first page with the cursor it was given, for each further page with
  the \<open>endCursor\<close> of the page before, and returns the names of the three pages
  concatenated in page order. The first failing call ends the traversal with that
  error alone: no name is returned, and no further call is made.
\<close>

theorem listRepositories_three_pages:
  assumes "Log gr = Some f"
    and "run_repositories client (calls w)
           (listRepositories_request organization cursor) = (p1, e1)"
    and "run_repositories client (calls w + 1)
           (listRepositories_request organization (EndCursor (Repositories_PageInfo p1)))
         = (p2, e2)"
    and "run_repositories client (calls w + 2)
           (listRepositories_request organization (EndCursor (Repositories_PageInfo p2)))
         = (p3, e3)"
    and "e1 = None \<Longrightarrow> HasNextPage (Repositories_PageInfo p1)"
    and "e1 = None \<Longrightarrow> e2 = None \<Longrightarrow> HasNextPage (Repositories_PageInfo p2)"
    and "e1 = None \<Longrightarrow> e2 = None \<Longrightarrow> e3 = None \<Longrightarrow>
           \<not> HasNextPage (Repositories_PageInfo p3)"
  shows "listRepositories gr client organization cursor w =
           Some (case e1 of Some err \<Rightarrow> (Done (Inl err), w\<lparr>calls := calls w + 1\<rparr>) | None \<Rightarrow>
                (case e2 of Some err \<Rightarrow> (Done (Inl err), w\<lparr>calls := calls w + 2\<rparr>) | None \<Rightarrow>
                (case e3 of Some err \<Rightarrow> (Done (Inl err), w\<lparr>calls := calls w + 3\<rparr>) | None \<Rightarrow>
                   (Done (Inr (map Name (Repositories_Nodes p1)
                               @ map Name (Repositories_Nodes p2)
                               @ map Name (Repositories_Nodes p3))),
                    w\<lparr>calls := calls w + 3,
                      logged := f (creditsRemaining (Repositories_RateLimit p1))
                                 (f (creditsRemaining (Repositories_RateLimit p2))
                                   (f (creditsRemaining (Repositories_RateLimit p3))
                                      (logged w)))\<rparr>))))"
proof (cases e1)
  case (Some err)
  then show ?thesis
    using assms(2)
    by (subst listRepositories_page [OF assms(1)]) simp
next
  case None
  note e1 = None
  let ?w1 = "w\<lparr>calls := Suc (calls w)\<rparr>"
  let ?w2 = "w\<lparr>calls := Suc (Suc (calls w))\<rparr>"
  show ?thesis
  proof (cases e2)
    case (Some err)
    have second: "listRepositories gr client organization
                    (EndCursor (Repositories_PageInfo p1)) ?w1 =
                  Some (Done (Inl err), w\<lparr>calls := calls w + 2\<rparr>)"
      using assms(3) Some
      by (subst listRepositories_page [OF assms(1)]) simp
    show ?thesis
      using assms(2) assms(5) [OF e1] e1 Some
      by (subst listRepositories_page [OF assms(1)]) (simp add: second)
  next
    case None
    have third: "listRepositories gr client organization
                   (EndCursor (Repositories_PageInfo p2)) ?w2 =
        Some (case e3 of Some err \<Rightarrow> (Done (Inl err), w\<lparr>calls := calls w + 3\<rparr>) | None \<Rightarrow>
                (Done (Inr (map Name (Repositories_Nodes p3))),
                 w\<lparr>calls := calls w + 3,
                   logged := f (creditsRemaining (Repositories_RateLimit p3)) (logged w)\<rparr>))"
      using assms(4) assms(7) [OF e1 None]
      by (subst listRepositories_page [OF assms(1)]) (simp split: option.splits)
    have second: "listRepositories gr client organization
                    (EndCursor (Repositories_PageInfo p1)) ?w1 =
        Some (case e3 of Some err \<Rightarrow> (Done (Inl err), w\<lparr>calls := calls w + 3\<rparr>) | None \<Rightarrow>
                (Done (Inr (map Name (Repositories_Nodes p2) @ map Name (Repositories_Nodes p3))),
                 w\<lparr>calls := calls w + 3,
                   logged := f (creditsRemaining (Repositories_RateLimit p2))
                               (f (creditsRemaining (Repositories_RateLimit p3)) (logged w))\<rparr>))"
      using assms(3) assms(6) [OF e1 None] None
      by (subst listRepositories_page [OF assms(1)]) (simp add: third split: option.splits)
    show ?thesis
      using assms(2) assms(5) [OF e1] e1 None
      by (subst listRepositories_page [OF assms(1)]) (simp add: second split: option.splits)
  qed
qed

theorem listRepositories_three_pages_witness:
  "HasNextPage (Repositories_PageInfo (exRepositories [''alpha'', ''beta'', ''gamma''] True ''c1''))
   \<and> HasNextPage (Repositories_PageInfo (exRepositories [''delta''] True ''c2''))
   \<and> \<not> HasNextPage (Repositories_PageInfo (exRepositories [''epsilon''] False []))
   \<and> listRepositories exActivityReport exClient ''AirVantage'' [] exWorld =
       Some (Done (Inr [''alpha'', ''beta'', ''gamma'', ''delta'', ''epsilon'']),
             \<lparr>calls = 3, logged = [''Credits remaining 4999'' @ newline,
                                   ''Credits remaining 4999'' @ newline,
                                   ''Credits remaining 4999'' @ newline]\<rparr>)
   \<and> listRepositories exActivityReport exClientPageFails ''AirVantage'' [] exWorld =
       Some (Done (Inl ''bad gateway''), \<lparr>calls = 2, logged = []\<rparr>)"
proof -
  let ?p1 = "exRepositories [''alpha'', ''beta'', ''gamma''] True ''c1''"
  let ?p2 = "exRepositories [''delta''] True ''c2''"
  let ?p3 = "exRepositories [''epsilon''] False []"
  have h1: "run_repositories exClient (calls exWorld)
              (listRepositories_request ''AirVantage'' []) = (?p1, None)"
    by (rule ex_pages)
  have h2: "run_repositories exClient (calls exWorld + 1)
              (listRepositories_request ''AirVantage'' (EndCursor (Repositories_PageInfo ?p1)))
            = (?p2, None)"
    by (simp add: ex_pageInfo ex_pages)
  have h3: "run_repositories exClient (calls exWorld + 2)
              (listRepositories_request ''AirVantage'' (EndCursor (Repositories_PageInfo ?p2)))
            = (?p3, None)"
    by (simp add: ex_pageInfo ex_pages)
  have ok: "listRepositories exActivityReport exClient ''AirVantage'' [] exWorld =
          Some (Done (Inr (map Name (Repositories_Nodes ?p1) @ map Name (Repositories_Nodes ?p2)
                           @ map Name (Repositories_Nodes ?p3))),
                exWorld\<lparr>calls := calls exWorld + 3,
                  logged := printLog (creditsRemaining (Repositories_RateLimit ?p1))
                             (printLog (creditsRemaining (Repositories_RateLimit ?p2))
                               (printLog (creditsRemaining (Repositories_RateLimit ?p3))
                                  (logged exWorld)))\<rparr>)"
    using listRepositories_three_pages [OF ex_Log h1 h2 h3]
    by (simp add: ex_pageInfo)
  let ?q2 = "exRepositories [] False []"
  have f1: "run_repositories exClientPageFails (calls exWorld)
              (listRepositories_request ''AirVantage'' []) = (?p1, None)"
    by (simp add: exClientPageFails_def exListing_def listRepositories_request_def Var_def
        NewRequest_def)
  have f2: "run_repositories exClientPageFails (calls exWorld + 1)
              (listRepositories_request ''AirVantage'' (EndCursor (Repositories_PageInfo ?p1)))
            = (?q2, Some ''bad gateway'')"
    by (simp add: ex_pageInfo exClientPageFails_def listRepositories_request_def Var_def
        NewRequest_def)
  obtain q3 e3 where f3: "run_repositories exClientPageFails (calls exWorld + 2)
              (listRepositories_request ''AirVantage'' (EndCursor (Repositories_PageInfo ?q2)))
            = (q3, e3)"
    by (cases "run_repositories exClientPageFails (calls exWorld + 2)
              (listRepositories_request ''AirVantage'' (EndCursor (Repositories_PageInfo ?q2)))")
  have failing: "listRepositories exActivityReport exClientPageFails ''AirVantage'' [] exWorld =
          Some (Done (Inl ''bad gateway''), exWorld\<lparr>calls := calls exWorld + 2\<rparr>)"
    using listRepositories_three_pages [OF ex_Log f1 f2 f3]
    by (simp add: ex_pageInfo)
  from ok failing show ?thesis
    by (simp add: ex_pageInfo ex_credits printLog_def exWorld_def)
qed

subsection \<open>Classification and aggregation\<close>

text \<open>
  C3 (amended). The claim: after a failed run no partially filled bucket remains
  readable. The buckets are fields of the report object, filled in place, and no
  path empties them: on the example, where the report call for beta (the second of
  three repositories) fails, \<open>Run\<close> returns the error naming beta and the buckets
  hold the four records of alpha.
\<close>

theorem Run_error_partial_report_counterexample:
  "fst (Run exClientFailing exClock exActivityReport exWorld) =
     Done (Some (reportError ''beta'' ''timeout''))
   \<and> Result exActivityReport =
       \<lparr>MergedPRs = [], OpenPRsWithActivity = [], OpenPRsWithoutActivity = []\<rparr>
   \<and> map (\<lambda>p. (Repository p, Number p))
        (MergedPRs (Result (fst (snd (Run exClientFailing exClock exActivityReport exWorld)))))
       = [(''alpha'', 1), (''alpha'', 3)]
   \<and> map (\<lambda>p. (Repository p, Number p))
        (OpenPRsWithActivity
           (Result (fst (snd (Run exClientFailing exClock exActivityReport exWorld)))))
       = [(''alpha'', 4)]
   \<and> map (\<lambda>p. (Repository p, Number p))
        (OpenPRsWithoutActivity
           (Result (fst (snd (Run exClientFailing exClock exActivityReport exWorld)))))
       = [(''alpha'', 5)]"
  by (simp add: ex_failing_outcome Run_buckets [OF ex_Log] ex_answers_failing ex_fields
      ex_since ex_mergedOf ex_openOf ex_stamp ex_PR)

text \<open>
  C3 as amended. When a remote call fails, \<open>Run\<close> returns an error at once: the
  listing error after one call, else the error naming the first repository whose
  report call failed, after that call and with no call for the repositories behind
  it. The records classified from the repositories before the failure stay in the
  buckets, after what the buckets held before the run; a failed listing leaves the
  buckets as they were.
\<close>

theorem Run_error_keeps_partial_report:
  assumes "Log gr = Some f"
    and "fst (Run client clk gr w) = Done (Some e)"
  shows "MergedPRs (Result (fst (snd (Run client clk gr w)))) =
           MergedPRs (Result gr) @
             concat (map (mergedOf (runSince clk gr)) (succeeded (runAnswers client clk gr w)))
       \<and> OpenPRsWithActivity (Result (fst (snd (Run client clk gr w)))) =
           OpenPRsWithActivity (Result gr) @
             filter hasActivity (concat (map openOf (succeeded (runAnswers client clk gr w))))
       \<and> OpenPRsWithoutActivity (Result (fst (snd (Run client clk gr w)))) =
           OpenPRsWithoutActivity (Result gr) @
             filter (\<lambda>p. \<not> hasActivity p)
               (concat (map openOf (succeeded (runAnswers client clk gr w))))
       \<and> (case runListing client gr w of
            (respData, Some err) \<Rightarrow>
              e = listingError err \<and> succeeded (runAnswers client clk gr w) = [] \<and>
              calls (snd (snd (Run client clk gr w))) = calls w + 1
          | (respData, None) \<Rightarrow>
              (\<exists>repoName err2.
                 firstFailure (runAnswers client clk gr w) = Some (repoName, err2) \<and>
                 e = reportError repoName err2) \<and>
              calls (snd (snd (Run client clk gr w))) =
                calls w + 1 + length (succeeded (runAnswers client clk gr w)) + 1)"
proof -
  obtain respData le where l: "runListing client gr w = (respData, le)"
    by (cases "runListing client gr w")
  have last: "(case runListing client gr w of
            (respData, Some err) \<Rightarrow>
              e = listingError err \<and> succeeded (runAnswers client clk gr w) = [] \<and>
              calls (snd (snd (Run client clk gr w))) = calls w + 1
          | (respData, None) \<Rightarrow>
              (\<exists>repoName err2.
                 firstFailure (runAnswers client clk gr w) = Some (repoName, err2) \<and>
                 e = reportError repoName err2) \<and>
              calls (snd (snd (Run client clk gr w))) =
                calls w + 1 + length (succeeded (runAnswers client clk gr w)) + 1)"
  proof (cases le)
    case (Some err)
    then show ?thesis
      using l assms(2)
      by (simp add: Run_outcome [OF assms(1)] Run_calls [OF assms(1)]
          runAnswers_listing_failed)
  next
    case None
    then show ?thesis
      using l assms(2)
      by (auto simp add: Run_outcome [OF assms(1)] Run_calls [OF assms(1)]
          split: option.splits)
  qed
  show ?thesis
    using last by (simp add: Run_buckets [OF assms(1)])
qed

theorem Run_error_keeps_partial_report_witness:
  "Log exActivityReport = Some printLog
   \<and> fst (Run exClientFailing exClock exActivityReport exWorld) =
       Done (Some (reportError ''beta'' ''timeout''))
   \<and> MergedPRs (Result (fst (snd (Run exClientFailing exClock exActivityReport exWorld)))) =
       [stamp ''alpha'' (exPR 1 ''2018-03-01T09:00:00Z'' ''2018-03-06T10:00:00Z'' [] 0),
        stamp ''alpha'' (exPR 3 ''2018-03-05T09:00:00Z'' ''2018-03-07T10:00:00Z'' [] 0)]
   \<and> OpenPRsWithActivity (Result (fst (snd (Run exClientFailing exClock exActivityReport exWorld))))
       = [stamp ''alpha'' (exPR 4 ''2018-03-02T09:00:00Z'' [] ''OPEN'' 3)]
   \<and> OpenPRsWithoutActivity
        (Result (fst (snd (Run exClientFailing exClock exActivityReport exWorld))))
       = [stamp ''alpha'' (exPR 5 ''2018-01-15T09:00:00Z'' [] ''OPEN'' 0)]
   \<and> calls (snd (snd (Run exClientFailing exClock exActivityReport exWorld))) = 3"
  using Run_error_keeps_partial_report [OF ex_Log ex_failing_outcome]
  by (simp add: ex_Log ex_failing_outcome ex_listing ex_answers_failing ex_fields ex_since
      ex_mergedOf ex_openOf)
     (simp add: exWorld_def)

text \<open>
  C4 (amended). The claim: a pull request is in \<open>mergedPRs\<close> iff its state is
  \<open>MERGED\<close> and its \<open>mergedAt\<close> parses to an instant after \<open>since\<close>. \<open>Run\<close> never
  reads the state: the remote filters by it, and the merged query does not even
  select the field, so the records in \<open>mergedPRs\<close> carry the empty state. On the
  example both merged records of the bucket have the state \<open>""\<close>. And the record
  with an unparseable \<open>mergedAt\<close> is not always left out: with a window of 800000
  days, on a clock in UTC, \<open>since\<close> lies before the zero time, and the run puts it
  in the bucket.
\<close>

theorem Run_mergedPRs_state_counterexample:
  "fst (Run exClient exClock exActivityReport exWorld) = Done None
   \<and> map (\<lambda>p. (Repository p, Number p, State p,
                After (time_Parse (MergedAt p)) (runSince exClock exActivityReport)))
        (MergedPRs (Result (fst (snd (Run exClient exClock exActivityReport exWorld)))))
       = [(''alpha'', 1, [], True), (''alpha'', 3, [], True)]
   \<and> map (\<lambda>p. (Repository p, Number p, parseISO (MergedAt p)))
        (MergedPRs (Result (fst (snd
           (Run exClient exClock (exActivityReport\<lparr>Duration := 800000\<rparr>) exWorld)))))
       = [(''alpha'', 1, Some 63655927200000000000),
          (''alpha'', 2, Some 63655236000000000000),
          (''alpha'', 3, Some 63656013600000000000),
          (''gamma'', 8, None)]"
proof -
  let ?gr = "exActivityReport\<lparr>Duration := 800000\<rparr>"
  have L: "Log ?gr = Some printLog"
    by (simp add: ex_Log)
  have since: "runSince exClock ?gr = - 5463892800000000000"
    by (simp add: runSince_def exClock_def exAddDate_def neg_int_def nsPerDay_def Date_def
        daysSinceEpoch_def daysBefore_def isLeap_def)
  have listing: "runListing exClient ?gr exWorld =
                   (exRepositories [''alpha'', ''beta'', ''gamma''] True ''c1'', None)"
    by (simp add: runListing_def exClient_def exListing_def
        listSubsetRepositories_request_def Var_def NewRequest_def)
  have answers: "runAnswers exClient exClock ?gr exWorld =
     [(''alpha'', exAlpha, None), (''beta'', exBeta, None), (''gamma'', exGamma, None)]"
    by (simp add: runAnswers_def listing exRepositories_def)
       (simp add: exClient_def exReports_def ex_repo_var)
  have parsed: "parseISO ''2018-03-06T10:00:00Z'' = Some 63655927200000000000"
    "parseISO ''2018-02-26T10:00:00Z'' = Some 63655236000000000000"
    "parseISO ''2018-03-07T10:00:00Z'' = Some 63656013600000000000"
    "parseISO ''yesterday'' = None"
    by code_simp+
  have early: "map (\<lambda>p. (Repository p, Number p, parseISO (MergedAt p)))
        (MergedPRs (Result (fst (snd (Run exClient exClock ?gr exWorld)))))
       = [(''alpha'', 1, Some 63655927200000000000),
          (''alpha'', 2, Some 63655236000000000000),
          (''alpha'', 3, Some 63656013600000000000),
          (''gamma'', 8, None)]"
    by (simp add: Run_buckets [OF L] answers since ex_fields mergedOf_def exAlpha_def
        exBeta_def exGamma_def exReport_def ex_PR ex_stamp time_Parse_def parsed After_def
        zeroTime_def)
  have "fst (Run exClient exClock exActivityReport exWorld) = Done None
   \<and> map (\<lambda>p. (Repository p, Number p, State p,
                After (time_Parse (MergedAt p)) (runSince exClock exActivityReport)))
        (MergedPRs (Result (fst (snd (Run exClient exClock exActivityReport exWorld)))))
       = [(''alpha'', 1, [], True), (''alpha'', 3, [], True)]"
    by (simp add: ex_outcome Run_buckets [OF ex_Log] ex_answers ex_fields
        ex_since ex_mergedOf ex_stamp ex_PR ex_parse After_def)
  with early show ?thesis by simp
qed

text \<open>
  C4 as amended. A run appends to \<open>mergedPRs\<close>, in enumeration and response order,
  exactly the nodes of the merged lists it classified (those of the repositories
  before the first failed call) whose \<open>mergedAt\<close>, parsed with the error dropped, is
  strictly after \<open>since\<close>, each stamped with its repository; the state is not
  consulted. \<open>since\<close> is what the clock of the process makes of
  \<open>now.AddDate(0, 0, -gr.Duration)\<close>. A \<open>mergedAt\<close> that does not parse counts as
  the zero time: the record is left out, with no error, unless \<open>since\<close> itself lies
  before the zero time.
\<close>

theorem Run_mergedPRs:
  assumes "Log gr = Some f"
  shows "MergedPRs (Result (fst (snd (Run client clk gr w)))) =
           MergedPRs (Result gr) @
             concat (map (mergedOf (runSince clk gr)) (succeeded (runAnswers client clk gr w)))
       \<and> (\<forall>a \<in> set (succeeded (runAnswers client clk gr w)).
            \<forall>p \<in> set (MergedPR_Nodes (snd a)).
              (stamp (fst a) p \<in> set (mergedOf (runSince clk gr) a)
                 \<longleftrightarrow> After (time_Parse (MergedAt p)) (runSince clk gr))
              \<and> (parseISO (MergedAt p) = None \<longrightarrow>
                   (stamp (fst a) p \<in> set (mergedOf (runSince clk gr) a)
                      \<longleftrightarrow> runSince clk gr < zeroTime)))"
proof -
  have "MergedPRs (Result (fst (snd (Run client clk gr w)))) =
           MergedPRs (Result gr) @
             concat (map (mergedOf (runSince clk gr)) (succeeded (runAnswers client clk gr w)))"
    by (rule Run_buckets(1) [OF assms])
  moreover have "stamp (fst a) p \<in> set (mergedOf (runSince clk gr) a)
                   \<longleftrightarrow> runSince clk gr < zeroTime"
    if "p \<in> set (MergedPR_Nodes (snd a))" "parseISO (MergedAt p) = None" for a p
    using that by (simp add: stamp_in_mergedOf time_Parse_unparseable After_def)
  ultimately show ?thesis
    by (simp add: stamp_in_mergedOf)
qed

theorem Run_mergedPRs_witness:
  "Log exActivityReport = Some printLog
   \<and> MergedPRs (Result (fst (snd (Run exClient exClock exActivityReport exWorld)))) =
       [stamp ''alpha'' (exPR 1 ''2018-03-01T09:00:00Z'' ''2018-03-06T10:00:00Z'' [] 0),
        stamp ''alpha'' (exPR 3 ''2018-03-05T09:00:00Z'' ''2018-03-07T10:00:00Z'' [] 0)]
   \<and> parseISO (MergedAt (exPR 8 ''2018-03-03T09:00:00Z'' ''yesterday'' [] 0)) = None
   \<and> stamp ''gamma'' (exPR 8 ''2018-03-03T09:00:00Z'' ''yesterday'' [] 0)
        \<notin> set (mergedOf (runSince exClock exActivityReport) (''gamma'', exGamma))"
proof -
  have un: "parseISO (MergedAt (exPR 8 ''2018-03-03T09:00:00Z'' ''yesterday'' [] 0)) = None"
    unfolding ex_PR by code_simp
  have "(''gamma'', exGamma) \<in> set (succeeded (runAnswers exClient exClock exActivityReport exWorld))"
    by (simp add: ex_answers)
  moreover have "exPR 8 ''2018-03-03T09:00:00Z'' ''yesterday'' [] 0
                   \<in> set (MergedPR_Nodes (snd (''gamma'', exGamma)))"
    by (simp add: exGamma_def exReport_def)
  ultimately have "stamp ''gamma'' (exPR 8 ''2018-03-03T09:00:00Z'' ''yesterday'' [] 0)
        \<in> set (mergedOf (runSince exClock exActivityReport) (''gamma'', exGamma))
      \<longleftrightarrow> runSince exClock exActivityReport < zeroTime"
    using Run_mergedPRs [OF ex_Log, of exClient exClock exWorld] un by fastforce
  moreover have "MergedPRs (Result (fst (snd (Run exClient exClock exActivityReport exWorld)))) =
       [stamp ''alpha'' (exPR 1 ''2018-03-01T09:00:00Z'' ''2018-03-06T10:00:00Z'' [] 0),
        stamp ''alpha'' (exPR 3 ''2018-03-05T09:00:00Z'' ''2018-03-07T10:00:00Z'' [] 0)]"
    using Run_mergedPRs [OF ex_Log, of exClient exClock exWorld]
    by (simp add: ex_answers ex_since ex_mergedOf ex_fields)
  ultimately show ?thesis
    using un by (simp add: ex_Log ex_since zeroTime_def)
qed

text \<open>
  C5 (amended). The claim: every pull request in either open bucket has the state
  \<open>OPEN\<close>. \<open>Run\<close> never reads the state of an open node: the query asks the remote
  for open pull requests, and what the response holds is bucketed as it comes. On a
  remote whose open list holds a closed pull request with two events and one with no
  state and no event, the run succeeds with the first in \<open>OpenPRsWithActivity\<close> and
  the second in \<open>OpenPRsWithoutActivity\<close>.
\<close>

theorem Run_open_buckets_state_counterexample:
  "fst (Run exClientStale exClock exActivityReport exWorld) = Done None
   \<and> map (\<lambda>p. (Repository p, Number p, State p))
        (OpenPRsWithActivity
           (Result (fst (snd (Run exClientStale exClock exActivityReport exWorld)))))
       = [(''alpha'', 23, ''CLOSED'')]
   \<and> map (\<lambda>p. (Repository p, Number p, State p))
        (OpenPRsWithoutActivity
           (Result (fst (snd (Run exClientStale exClock exActivityReport exWorld)))))
       = [(''alpha'', 24, [])]"
  by (simp add: Run_outcome [OF ex_Log] Run_buckets [OF ex_Log] ex_stale_answers ex_fields
      openOf_def exStale_def exReport_def hasActivity_def ex_stamp ex_PR)

text \<open>
  C5 as amended. The two open buckets partition the nodes of the open lists that a
  run classified (those of the repositories before the first failed call; all the
  lists fetched when the run succeeds): each node, stamped, is appended to exactly
  one bucket, in order, to \<open>OpenPRsWithActivity\<close> iff its activity count is positive
  and to \<open>OpenPRsWithoutActivity\<close> otherwise; none is in both parts and none is
  dropped. The state is not checked: every appended record carries the state the
  remote gave its node, which is \<open>OPEN\<close> as far as the remote honours the filter of
  the query.
\<close>

theorem Run_open_buckets_partition:
  assumes "Log gr = Some f"
  shows "OpenPRsWithActivity (Result (fst (snd (Run client clk gr w)))) =
           OpenPRsWithActivity (Result gr) @
             filter (\<lambda>p. Timeline_TotalCount p > 0)
               (concat (map openOf (succeeded (runAnswers client clk gr w))))
       \<and> OpenPRsWithoutActivity (Result (fst (snd (Run client clk gr w)))) =
           OpenPRsWithoutActivity (Result gr) @
             filter (\<lambda>p. \<not> Timeline_TotalCount p > 0)
               (concat (map openOf (succeeded (runAnswers client clk gr w))))
       \<and> (fst (Run client clk gr w) = Done None \<longrightarrow>
            succeeded (runAnswers client clk gr w) =
              map (\<lambda>a. (fst a, fst (snd a))) (runAnswers client clk gr w))
       \<and> (\<forall>p \<in> set (concat (map openOf (succeeded (runAnswers client clk gr w)))).
            (\<exists>a \<in> set (succeeded (runAnswers client clk gr w)).
               \<exists>q \<in> set (OpenPR_Nodes (snd a)). p = stamp (fst a) q \<and> State p = State q)
            \<and> (p \<in> set (filter (\<lambda>p. Timeline_TotalCount p > 0)
                         (concat (map openOf (succeeded (runAnswers client clk gr w)))))
                 \<longleftrightarrow> Timeline_TotalCount p > 0)
            \<and> (p \<in> set (filter (\<lambda>p. \<not> Timeline_TotalCount p > 0)
                         (concat (map openOf (succeeded (runAnswers client clk gr w)))))
                 \<longleftrightarrow> \<not> Timeline_TotalCount p > 0))
       \<and> mset (filter (\<lambda>p. Timeline_TotalCount p > 0)
                 (concat (map openOf (succeeded (runAnswers client clk gr w)))))
           + mset (filter (\<lambda>p. \<not> Timeline_TotalCount p > 0)
                 (concat (map openOf (succeeded (runAnswers client clk gr w)))))
           = mset (concat (map openOf (succeeded (runAnswers client clk gr w))))"
proof -
  let ?as = "runAnswers client clk gr w"
  let ?opens = "concat (map openOf (succeeded ?as))"
  have all: "succeeded ?as = map (\<lambda>a. (fst a, fst (snd a))) ?as"
    if ok: "fst (Run client clk gr w) = Done None"
  proof -
    obtain respData le where l: "runListing client gr w = (respData, le)"
      by (cases "runListing client gr w")
    have "firstFailure ?as = None"
      using ok l
      by (cases le; cases "firstFailure ?as")
         (auto simp add: Run_outcome [OF assms] runAnswers_listing_failed)
    from firstFailure_None_succeeded [OF this] show ?thesis by simp
  qed
  have origin: "\<exists>a \<in> set (succeeded ?as).
                  \<exists>q \<in> set (OpenPR_Nodes (snd a)). p = stamp (fst a) q \<and> State p = State q"
    if "p \<in> set ?opens" for p
  proof -
    from that obtain b where b: "b \<in> set (succeeded ?as)" and p: "p \<in> set (openOf b)"
      by auto
    from openOf_origin [OF p] b show ?thesis by blast
  qed
  have w: "OpenPRsWithActivity (Result (fst (snd (Run client clk gr w)))) =
             OpenPRsWithActivity (Result gr) @ filter (\<lambda>p. Timeline_TotalCount p > 0) ?opens"
    using Run_buckets(2) [OF assms, of client clk w]
    by (simp add: hasActivity_def [abs_def])
  have wo: "OpenPRsWithoutActivity (Result (fst (snd (Run client clk gr w)))) =
             OpenPRsWithoutActivity (Result gr) @
               filter (\<lambda>p. \<not> Timeline_TotalCount p > 0) ?opens"
    using Run_buckets(3) [OF assms, of client clk w]
    by (simp add: hasActivity_def [abs_def])
  show ?thesis
    using w wo all origin by simp
qed

theorem Run_open_buckets_partition_witness:
  "Log exActivityReport = Some printLog
   \<and> fst (Run exClient exClock exActivityReport exWorld) = Done None
   \<and> succeeded (runAnswers exClient exClock exActivityReport exWorld) =
       [(''alpha'', exAlpha), (''beta'', exBeta), (''gamma'', exGamma)]
   \<and> OpenPRsWithActivity (Result (fst (snd (Run exClient exClock exActivityReport exWorld)))) =
       [stamp ''alpha'' (exPR 4 ''2018-03-02T09:00:00Z'' [] ''OPEN'' 3),
        stamp ''beta'' (exPR 7 ''2018-03-04T09:00:00Z'' [] ''OPEN'' 1)]
   \<and> OpenPRsWithoutActivity (Result (fst (snd (Run exClient exClock exActivityReport exWorld)))) =
       [stamp ''alpha'' (exPR 5 ''2018-01-15T09:00:00Z'' [] ''OPEN'' 0)]"
proof -
  have "OpenPRsWithActivity (Result (fst (snd (Run exClient exClock exActivityReport exWorld)))) =
       [stamp ''alpha'' (exPR 4 ''2018-03-02T09:00:00Z'' [] ''OPEN'' 3),
        stamp ''beta'' (exPR 7 ''2018-03-04T09:00:00Z'' [] ''OPEN'' 1)]
     \<and> OpenPRsWithoutActivity
          (Result (fst (snd (Run exClient exClock exActivityReport exWorld)))) =
       [stamp ''alpha'' (exPR 5 ''2018-01-15T09:00:00Z'' [] ''OPEN'' 0)]
     \<and> succeeded (runAnswers exClient exClock exActivityReport exWorld) =
       [(''alpha'', exAlpha), (''beta'', exBeta), (''gamma'', exGamma)]"
    using Run_open_buckets_partition [OF ex_Log, of exClient exClock exWorld] ex_openOf
    by (simp add: ex_outcome ex_answers ex_fields hasActivity_def [abs_def])
  then show ?thesis
    by (simp add: ex_Log ex_outcome)
qed




subsection \<open>Ordering utilities\<close>

text \<open>
  C8 (amended). The claim: a pull request whose \<open>createdAt\<close> does not parse sorts as
  the oldest possible value, the unparseable side of a comparison being the earlier
  one. \<open>Less\<close> drops the parse error and compares the zero time, January 1 of year
  1, and the layout accepts the years 0000 to 9999: a \<open>createdAt\<close> of year 0000 is
  earlier than the zero time. On the example the record with such a date is \<open>Less\<close>
  than the unparseable one and is sorted before it.
\<close>

theorem ByAge_year_zero_counterexample:
  "parseISO (CreatedAt (exYearZeroList ! 0)) = None
   \<and> parseISO (CreatedAt (exYearZeroList ! 1)) = Some (- 17236800000000000)
   \<and> ByAge_Less exYearZeroList 1 0 = Done True
   \<and> ByAge_Less exYearZeroList 0 1 = Done False
   \<and> insertionSort ByAge_Less ByAge_Swap exYearZeroList 0 (ByAge_Len exYearZeroList) =
       Done [exPR 2 ''0000-06-15T12:00:00Z'' [] ''OPEN'' 0, exPR 1 ''not a date'' [] ''OPEN'' 0]"
proof -
  have p: "parseISO ''0000-06-15T12:00:00Z'' = Some (- 17236800000000000)"
    by code_simp
  have "insertedAll (\<lambda>p. time_Parse (CreatedAt p)) exYearZeroList =
          [exPR 2 ''0000-06-15T12:00:00Z'' [] ''OPEN'' 0, exPR 1 ''not a date'' [] ''OPEN'' 0]"
    by (simp add: insertedAll_def exYearZeroList_def ex_PR ex_created time_Parse_unparseable
        zeroTime_def)
  then show ?thesis
    by (simp add: ByAge_insertionSort)
       (simp add: exYearZeroList_def ex_PR ex_created p ByAge_Less_def After_def
          time_Parse_unparseable zeroTime_def)
qed

text \<open>
  C8 as amended. Sorting by the \<open>ByAge\<close> interface never panics and leaves the
  records in ascending order of their parsed \<open>createdAt\<close>, a permutation of the input.
  A record whose \<open>createdAt\<close> does not parse is compared as the zero time (January 1
  of year 1, UTC): it is \<open>Less\<close> than exactly the records whose parsed time is after
  the zero time, and only a record whose parsed time is before the zero time (a date
  of year 0000) is \<open>Less\<close> than it. Each comparison returns, with no error.
\<close>

theorem ByAge_sort_ascending:
  "(\<exists>ys. insertionSort ByAge_Less ByAge_Swap a 0 (ByAge_Len a) = Done ys
         \<and> mset ys = mset a
         \<and> sorted (map (\<lambda>p. time_Parse (CreatedAt p)) ys))
   \<and> (\<forall>i < length a. \<forall>j < length a.
         parseISO (CreatedAt (a ! i)) = None \<longrightarrow>
           ByAge_Less a i j = Done (After (time_Parse (CreatedAt (a ! j))) zeroTime)
         \<and> ByAge_Less a j i = Done (After zeroTime (time_Parse (CreatedAt (a ! j)))))"
proof -
  let ?k = "\<lambda>p. time_Parse (CreatedAt p)"
  have "\<exists>ys. insertionSort ByAge_Less ByAge_Swap a 0 (ByAge_Len a) = Done ys
         \<and> mset ys = mset a \<and> sorted (map ?k ys)"
    using ByAge_insertionSort [of a] insertedAll_mset [of ?k a] insertedAll_sorted [of ?k a]
    by blast
  moreover have "ByAge_Less a i j = Done (After (time_Parse (CreatedAt (a ! j))) zeroTime)
         \<and> ByAge_Less a j i = Done (After zeroTime (time_Parse (CreatedAt (a ! j))))"
    if "i < length a" "j < length a" "parseISO (CreatedAt (a ! i)) = None" for i j
    using that by (simp add: ByAge_Less_def Let_def time_Parse_unparseable)
  ultimately show ?thesis by blast
qed

theorem ByAge_sort_ascending_witness:
  "parseISO (CreatedAt (exAgeList ! 1)) = None
   \<and> ByAge_Less exAgeList 1 0 = Done True
   \<and> ByAge_Less exAgeList 0 1 = Done False
   \<and> insertionSort ByAge_Less ByAge_Swap exAgeList 0 (ByAge_Len exAgeList) =
       Done [exPR 2 ''not a date'' [] ''OPEN'' 0, exPR 3 ''2018-01-15T09:00:00Z'' [] ''OPEN'' 0,
             exPR 1 ''2018-03-02T09:00:00Z'' [] ''OPEN'' 0]
   \<and> sorted (map (\<lambda>p. time_Parse (CreatedAt p))
        [exPR 2 ''not a date'' [] ''OPEN'' 0, exPR 3 ''2018-01-15T09:00:00Z'' [] ''OPEN'' 0,
         exPR 1 ''2018-03-02T09:00:00Z'' [] ''OPEN'' 0])"
proof -
  have un: "parseISO (CreatedAt (exAgeList ! 1)) = None"
    by (simp add: exAgeList_def ex_PR ex_created)
  have len: "(1::nat) < length exAgeList" "(0::nat) < length exAgeList"
    by (simp_all add: exAgeList_def)
  have at: "time_Parse (CreatedAt (exAgeList ! 0)) = 63655578000000000000"
    by (simp add: exAgeList_def ex_PR ex_created)
  have ev: "insertionSort ByAge_Less ByAge_Swap exAgeList 0 (ByAge_Len exAgeList) =
       Done [exPR 2 ''not a date'' [] ''OPEN'' 0, exPR 3 ''2018-01-15T09:00:00Z'' [] ''OPEN'' 0,
             exPR 1 ''2018-03-02T09:00:00Z'' [] ''OPEN'' 0]"
    by (simp add: ByAge_insertionSort ex_insertedAll_age)
  from ByAge_sort_ascending [of exAgeList]
  obtain ys where "insertionSort ByAge_Less ByAge_Swap exAgeList 0 (ByAge_Len exAgeList) = Done ys"
    and "sorted (map (\<lambda>p. time_Parse (CreatedAt p)) ys)"
    and "\<forall>i < length exAgeList. \<forall>j < length exAgeList.
         parseISO (CreatedAt (exAgeList ! i)) = None \<longrightarrow>
           ByAge_Less exAgeList i j =
             Done (After (time_Parse (CreatedAt (exAgeList ! j))) zeroTime)
         \<and> ByAge_Less exAgeList j i =
             Done (After zeroTime (time_Parse (CreatedAt (exAgeList ! j))))"
    by blast
  with ev un len at show ?thesis
    by (auto simp add: After_def zeroTime_def)
qed

text \<open>
  C9 (amended). The claim: the ordering is stable, records of equal activity count
  keeping their input order. The package only supplies \<open>Len\<close>, \<open>Less\<close> and \<open>Swap\<close>
  and sorts nothing itself; \<open>Less\<close> is false both ways between records of equal
  count, so it tells nothing about their order. The records of the example, with
  each pair of ties the other way round than in the input, are a permutation of the
  input that is in order for the interface: a sort routine may return it.
\<close>

theorem ByActivity_ties_counterexample:
  "mset exActivityTiesSwapped = mset exActivityList
   \<and> inOrder ByActivity_Less exActivityTiesSwapped
   \<and> map Number (filter (\<lambda>p. Timeline_TotalCount p = 5) exActivityList) = [2, 4]
   \<and> map Number (filter (\<lambda>p. Timeline_TotalCount p = 5) exActivityTiesSwapped) = [4, 2]
   \<and> ByActivity_Less exActivityList 1 3 = Done False
   \<and> ByActivity_Less exActivityList 3 1 = Done False"
proof -
  have "mset exActivityTiesSwapped = mset exActivityList"
    by (simp add: exActivityTiesSwapped_def exActivityList_def)
  moreover have "inOrder ByActivity_Less exActivityTiesSwapped"
    by (simp add: inOrder_def exActivityTiesSwapped_def ByActivity_Less_def ex_PR
        upt_conv_Cons)
  ultimately show ?thesis
    by (simp add: exActivityTiesSwapped_def exActivityList_def ByActivity_Less_def ex_PR)
qed

text \<open>
  C9 as amended. The "by activity" ordering is descending by activity count:
  \<open>Less(i, j)\<close> holds iff record \<open>i\<close> has the greater count, and a slice is in order
  for the interface iff its counts never increase. Records of equal count are not
  ordered by it (\<open>Less\<close> is false both ways): whether they keep their input order
  depends on the sort routine the caller drives with the interface.
\<close>

theorem ByActivity_descending_ties_open:
  "(\<forall>i < length a. \<forall>j < length a.
      ByActivity_Less a i j = Done (Timeline_TotalCount (a ! j) < Timeline_TotalCount (a ! i))
      \<and> (Timeline_TotalCount (a ! i) = Timeline_TotalCount (a ! j) \<longrightarrow>
           ByActivity_Less a i j = Done False \<and> ByActivity_Less a j i = Done False))
   \<and> (inOrder ByActivity_Less a \<longleftrightarrow>
        sorted_wrt (\<lambda>p q. Timeline_TotalCount q \<le> Timeline_TotalCount p) a)"
proof -
  have less: "ByActivity_Less a i j =
                Done (Timeline_TotalCount (a ! j) < Timeline_TotalCount (a ! i))"
    if "i < length a" "j < length a" for i j
    using that by (simp add: ByActivity_Less_def)
  have "inOrder ByActivity_Less a \<longleftrightarrow>
          (\<forall>j < length a. \<forall>i < j. Timeline_TotalCount (a ! j) \<le> Timeline_TotalCount (a ! i))"
    unfolding inOrder_iff
  proof (intro iffI allI impI)
    fix j i
    assume h: "\<forall>j<length a. \<forall>i<j. ByActivity_Less a j i = Done False"
      and j: "j < length a" and i: "i < j"
    from h j i have "ByActivity_Less a j i = Done False" by blast
    with less [of j i] j i show "Timeline_TotalCount (a ! j) \<le> Timeline_TotalCount (a ! i)"
      by simp
  next
    fix j i
    assume h: "\<forall>j<length a. \<forall>i<j. Timeline_TotalCount (a ! j) \<le> Timeline_TotalCount (a ! i)"
      and j: "j < length a" and i: "i < j"
    from h j i have "Timeline_TotalCount (a ! j) \<le> Timeline_TotalCount (a ! i)" by blast
    with less [of j i] j i show "ByActivity_Less a j i = Done False"
      by simp
  qed
  also have "\<dots> \<longleftrightarrow> sorted_wrt (\<lambda>p q. Timeline_TotalCount q \<le> Timeline_TotalCount p) a"
    by (auto simp add: sorted_wrt_iff_nth_less)
  finally show ?thesis
    using less by simp
qed

theorem ByActivity_descending_ties_open_witness:
  "ByActivity_Less exActivityList 1 0 = Done True
   \<and> ByActivity_Less exActivityList 0 2 = Done False
   \<and> ByActivity_Less exActivityList 2 0 = Done False
   \<and> \<not> inOrder ByActivity_Less exActivityList
   \<and> inOrder ByActivity_Less exActivitySorted
   \<and> inOrder ByActivity_Less exActivityTiesSwapped"
proof -
  have len: "length exActivityList = 4"
    by (simp add: exActivityList_def)
  have at: "Timeline_TotalCount (exActivityList ! 0) = 3"
    "Timeline_TotalCount (exActivityList ! 1) = 5"
    "Timeline_TotalCount (exActivityList ! 2) = 3"
    by (simp_all add: exActivityList_def ex_PR)
  have l: "ByActivity_Less exActivityList 1 0 = Done True
         \<and> ByActivity_Less exActivityList 0 2 = Done False
         \<and> ByActivity_Less exActivityList 2 0 = Done False"
    using ByActivity_descending_ties_open [of exActivityList] len at by simp
  have "\<not> inOrder ByActivity_Less exActivityList"
    using ByActivity_descending_ties_open [of exActivityList]
    by (simp add: exActivityList_def ex_PR)
  moreover have "inOrder ByActivity_Less exActivitySorted"
    using ByActivity_descending_ties_open [of exActivitySorted]
    by (simp add: exActivitySorted_def ex_PR)
  moreover have "inOrder ByActivity_Less exActivityTiesSwapped"
    using ByActivity_descending_ties_open [of exActivityTiesSwapped]
    by (simp add: exActivityTiesSwapped_def ex_PR)
  ultimately show ?thesis
    using l by simp
qed

subsection \<open>The logging sink\<close>

text \<open>
  C2 (the code departs from it). The claim: without a logging sink every logging call
  is a no-op and the run completes. \<open>NewActivityReport\<close> leaves \<open>Log\<close> nil and \<open>logf\<close>
  calls it unguarded, so the first \<open>logf\<close>, after the repository listing has
  succeeded, panics: the run of the README, on a remote that answers every call,
  does not return.
\<close>

theorem Run_without_Log_panics:
  "Log (NewActivityReport ''AirVantage'' ''GH_TOKEN'' 7) = None
   \<and> snd (runListing exClient (NewActivityReport ''AirVantage'' ''GH_TOKEN'' 7) exWorld) = None
   \<and> fst (Run exClient exClock (NewActivityReport ''AirVantage'' ''GH_TOKEN'' 7) exWorld) = Panic"
proof -
  have nil: "Log (NewActivityReport ''AirVantage'' ''GH_TOKEN'' 7) = None"
    by (simp add: NewActivityReport_def)
  have answered:
    "snd (runListing exClient (NewActivityReport ''AirVantage'' ''GH_TOKEN'' 7) exWorld) = None"
    by (simp add: runListing_def exClient_def exListing_def)
  from nil answered Run_nil_Log [OF nil answered] show ?thesis by simp
qed

end
